theory Spec2Isabelle
  imports Main "HOL-Library.Sublist" "HOL-Library.AList"
begin

section \<open>Python strings and regular expressions\<close>

text \<open>
  The dialogue engine of \<^verbatim>\<open>api.py\<close> works on Python \<^verbatim>\<open>str\<close> values. A \<^typ>\<open>string\<close>
  is read here as a sequence of code points, one \<^typ>\<open>char\<close> per code point, so the
  model covers the utterances whose code points lie below 256. The character classes
  below are the ones of Python's \<^verbatim>\<open>re\<close> module (Unicode mode) restricted to that range:
  \<^verbatim>\<open>\d\<close> is the decimal digits, \<^verbatim>\<open>\s\<close> is \<^verbatim>\<open>str.isspace\<close>, and \<^verbatim>\<open>\w\<close> is
  \<^verbatim>\<open>str.isalnum\<close> or the underscore.
\<close>

definition is_digit :: "char \<Rightarrow> bool" where
  "is_digit c = (let n = (of_char c :: nat) in 48 \<le> n \<and> n \<le> 57)"

definition is_space :: "char \<Rightarrow> bool" where
  "is_space c = (let n = (of_char c :: nat) in
     (9 \<le> n \<and> n \<le> 13) \<or> (28 \<le> n \<and> n \<le> 32) \<or> n = 133 \<or> n = 160)"

definition is_word :: "char \<Rightarrow> bool" where
  "is_word c = (let n = (of_char c :: nat) in
     (48 \<le> n \<and> n \<le> 57) \<or> (65 \<le> n \<and> n \<le> 90) \<or> n = 95 \<or> (97 \<le> n \<and> n \<le> 122) \<or>
     n = 170 \<or> n = 178 \<or> n = 179 \<or> n = 181 \<or> n = 185 \<or> n = 186 \<or>
     (188 \<le> n \<and> n \<le> 190) \<or> (192 \<le> n \<and> n \<le> 214) \<or> (216 \<le> n \<and> n \<le> 246) \<or> 248 \<le> n)"

text \<open>\<^verbatim>\<open>str.lower()\<close>, character by character (below 256 no character changes length).\<close>

definition lower_char :: "char \<Rightarrow> char" where
  "lower_char c = (let n = (of_char c :: nat) in
     if (65 \<le> n \<and> n \<le> 90) \<or> (192 \<le> n \<and> n \<le> 214) \<or> (216 \<le> n \<and> n \<le> 222)
     then char_of (n + 32) else c)"

definition lower :: "string \<Rightarrow> string" where
  "lower s = map lower_char s"

text \<open>
  \<^verbatim>\<open>str.capitalize()\<close>: the first character in upper case, the rest in lower case.
  It is only applied to clipboard keys; the three characters below 256 whose capital lies
  outside that range (or is two characters long) are left as they are.
\<close>

definition upper_char :: "char \<Rightarrow> char" where
  "upper_char c = (let n = (of_char c :: nat) in
     if (97 \<le> n \<and> n \<le> 122) \<or> (224 \<le> n \<and> n \<le> 246) \<or> (248 \<le> n \<and> n \<le> 254)
     then char_of (n - 32) else c)"

definition capitalize :: "string \<Rightarrow> string" where
  "capitalize s = (case s of [] \<Rightarrow> [] | c # cs \<Rightarrow> upper_char c # lower cs)"

text \<open>\<^verbatim>\<open>w in text\<close> on strings: \<open>w\<close> occurs in \<open>text\<close> as a contiguous piece.\<close>

fun contains :: "string \<Rightarrow> string \<Rightarrow> bool" where
  "contains [] w = (w = [])"
| "contains (c # cs) w = (prefix w (c # cs) \<or> contains cs w)"

text \<open>\<^verbatim>\<open>sep.join(xs)\<close>.\<close>

fun join :: "string \<Rightarrow> string list \<Rightarrow> string" where
  "join sep [] = []"
| "join sep [x] = x"
| "join sep (x # y # ys) = x @ sep @ join sep (y # ys)"

text \<open>
  The regular expressions of the engine use alternations of literal words, \<^verbatim>\<open>\d+\<close>,
  \<^verbatim>\<open>\s*\<close>, \<^verbatim>\<open>\s+\<close>, \<^verbatim>\<open>\b\<close>, concatenation and alternation. \<open>rx_ends r p s\<close> lists
  the lengths that \<open>r\<close> can consume at the front of \<open>s\<close> (with \<open>p\<close> the character before
  it, for \<^verbatim>\<open>\b\<close>), in the order in which Python's backtracking matcher tries them:
  alternatives left to right, greedy repetitions longest first. The match found at a
  position is the head of that list, and \<^verbatim>\<open>re.search\<close> takes the leftmost position that
  has one.
\<close>

datatype rx = Lits "string list" | Digits1 | Spaces0 | Spaces1 | WordB | Seq rx rx | Or rx rx

definition prev_after :: "char option \<Rightarrow> string \<Rightarrow> nat \<Rightarrow> char option" where
  "prev_after p s n = (if n = 0 then p else Some (s ! (n - 1)))"

definition at_boundary :: "char option \<Rightarrow> string \<Rightarrow> bool" where
  "at_boundary p s =
     ((case p of None \<Rightarrow> False | Some c \<Rightarrow> is_word c) \<noteq> (case s of [] \<Rightarrow> False | c # _ \<Rightarrow> is_word c))"

fun rx_ends :: "rx \<Rightarrow> char option \<Rightarrow> string \<Rightarrow> nat list" where
  "rx_ends (Lits ws) p s = map length (filter (\<lambda>w. prefix w s) ws)"
| "rx_ends Digits1 p s = rev [1 ..< Suc (length (takeWhile is_digit s))]"
| "rx_ends Spaces0 p s = rev [0 ..< Suc (length (takeWhile is_space s))]"
| "rx_ends Spaces1 p s = rev [1 ..< Suc (length (takeWhile is_space s))]"
| "rx_ends WordB p s = (if at_boundary p s then [0] else [])"
| "rx_ends (Seq a b) p s =
     concat (map (\<lambda>n. map (\<lambda>m. n + m) (rx_ends b (prev_after p s n) (drop n s))) (rx_ends a p s))"
| "rx_ends (Or a b) p s = rx_ends a p s @ rx_ends b p s"

text \<open>A match object is the pair of \<^verbatim>\<open>match.start()\<close> and \<^verbatim>\<open>match.group(0)\<close>.\<close>

type_synonym match = "nat \<times> string"

fun search_from :: "rx \<Rightarrow> char option \<Rightarrow> string \<Rightarrow> nat \<Rightarrow> match option" where
  "search_from r p [] i = (case rx_ends r p [] of [] \<Rightarrow> None | n # _ \<Rightarrow> Some (i, []))"
| "search_from r p (c # cs) i =
     (case rx_ends r p (c # cs) of
        [] \<Rightarrow> search_from r (Some c) cs (Suc i)
      | n # _ \<Rightarrow> Some (i, take n (c # cs)))"

definition re_search :: "rx \<Rightarrow> string \<Rightarrow> match option" where
  "re_search r s = search_from r None s 0"

section \<open>The clipboard\<close>

text \<open>
  A Python \<^verbatim>\<open>dict\<close> keeps its keys in insertion order; assigning to a key that is present
  replaces the value in place, assigning to a new key appends it. This is
  \<^const>\<open>AList.update\<close> on an association list.
\<close>

type_synonym clipboard = "(string \<times> string) list"

definition dict_set :: "'k \<Rightarrow> 'v \<Rightarrow> ('k \<times> 'v) list \<Rightarrow> ('k \<times> 'v) list" where
  "dict_set k v d = AList.update k v d"

definition dict_get :: "('k \<times> 'v) list \<Rightarrow> 'k \<Rightarrow> 'v option" where
  "dict_get d k = map_of d k"

definition dict_get_or :: "('k \<times> 'v) list \<Rightarrow> 'k \<Rightarrow> 'v \<Rightarrow> 'v" where
  "dict_get_or d k dflt = (case map_of d k of None \<Rightarrow> dflt | Some v \<Rightarrow> v)"

section \<open>Helper functions\<close>

text \<open>
  \<^verbatim>\<open>check_negation(text, index)\<close>: the slice \<^verbatim>\<open>text[max(0, index - 20):index]\<close> is searched
  for a negation word between word boundaries. The index is a match position, a natural
  number.
\<close>

definition negation_tokens :: "string list" where
  "negation_tokens = [''no'', ''not'', ''dont'', ''without'', ''denies'', ''never'']"

definition check_negation :: "string \<Rightarrow> nat \<Rightarrow> bool" where
  "check_negation text index =
     (let preceding_text = drop (index - 20) (take index text)
      in re_search (Seq WordB (Seq (Lits negation_tokens) WordB)) preceding_text \<noteq> None)"

section \<open>Logic configuration\<close>

text \<open>
  The keyword routers and the question groups, in the order of the module. The name
  \<^verbatim>\<open>SPECIALIST_QUESTIONS\<close> is assigned three times: the empty dictionary, the dictionary
  literal with the single key GASTROINTESTINAL, and the dictionary literal with the
  single key NEUROLOGICAL; the other four categories are then stored into the last one.
  \<open>GASTRO_QUESTIONS\<close> is the value the second literal gives to GASTROINTESTINAL.
\<close>

definition GASTRO_KEYWORDS :: "(string \<times> string list) list" where
  "GASTRO_KEYWORDS =
    [(''STOMACH'',
       [''vomit'', ''nausea'', ''puke'', ''throw up'', ''upper'', ''ulcer'', ''gastritis'',
        ''tummy'']),
     (''INTESTINES'',
       [''diarrhea'', ''constipation'', ''poop'', ''stool'', ''bloat'', ''gas'', ''cramp'',
        ''lower'']),
     (''ESOPHAGUS'',
       [''heartburn'', ''acid'', ''reflux'', ''chest'', ''burn'', ''swallow'', ''gerd'']),
     (''GENERAL'',
       [''poison'', ''food'', ''ate'', ''sushi'', ''bad food'', ''flu''])]"

definition GASTRO_QUESTIONS :: "(string \<times> (string \<times> string list) list) list" where
  "GASTRO_QUESTIONS =
    [(''STOMACH'',
       [(''duration'',
          [''How long have you had this stomach pain?'',
           ''When did the pain start?'',
           ''Has this been hurting for a while or did it just start?'']),
        (''vomiting'',
          [''Have you experienced any vomiting or nausea?'',
           ''Have you thrown up at all?'',
           ''Is there any nausea?'']),
        (''severity'',
          [''Does the pain get worse after eating?'',
           ''On a scale of 1-10, how severe is it?'',
           ''Is the pain sharp or dull?''])]),
     (''INTESTINES'',
       [(''bowel'',
          [''Have you noticed any changes in your bowel movements (diarrhea or constipation)?'',
           ''Is everything normal when you go to the bathroom?'']),
        (''bloating'',
          [''Is there any bloating or gas?'',
           ''Do you feel unusually full or bloated?'']),
        (''cramps'',
          [''On a scale of 1-10, how severe are the cramps?'',
           ''Are the cramps coming and going?''])]),
     (''ESOPHAGUS'',
       [(''swallowing'',
          [''Do you have difficulty swallowing?'',
           ''Does it hurt when you swallow?'']),
        (''heartburn'',
          [''Do you experience burning in the chest after meals?'',
           ''Does antacid relieve the burning sensation?'']),
        (''regurgitation'',
          [''Do you feel any acid or food coming up into your throat?'',
           ''Do you have a sour taste in your mouth?''])]),
     (''GENERAL'',
       [(''food_history'',
          [''Did you eat anything unusual or uncooked recently?'',
           ''Any recent travel or food exposures?'']),
        (''fever'',
          [''Do you have fever or chills?'',
           ''Have you noticed any sweating or night fevers?''])]),
     (''DEFAULT'',
       [(''assessment'',
          [''Where exactly is the pain located?'',
           ''How long have you felt this way?'',
           ''On a scale of 1-10, how severe is it?''])])]"

definition NEURO_KEYWORDS :: "(string \<times> string list) list" where
  "NEURO_KEYWORDS =
    [(''HEADACHE'',
       [''headache'', ''migraine'', ''head'', ''temple'', ''throb'', ''pounding'',
        ''forehead'', ''skull'', ''pressure'', ''ache'']),
     (''DIZZINESS'',
       [''dizzy'', ''spin'', ''spinning'', ''lightheaded'', ''woozy'', ''balance'',
        ''steady'', ''unsteady'', ''vertigo'', ''fall'']),
     (''VISION'',
       [''vision'', ''blur'', ''blurry'', ''double'', ''see'', ''sight'', ''flash'',
        ''spots'', ''blind'', ''eye'']),
     (''CONSCIOUSNESS'',
       [''faint'', ''black out'', ''blackout'', ''passed out'', ''unconscious'',
        ''seizure'', ''fit'', ''convulsion'', ''wake up'']),
     (''GENERAL'',
       [''numb'', ''numbness'', ''tingle'', ''tingling'', ''weak'', ''weakness'',
        ''confused'', ''confusion'', ''slur'', ''speak'', ''stroke'', ''face''])]"

definition NEURO_QUESTIONS :: "(string \<times> (string \<times> string list) list) list" where
  "NEURO_QUESTIONS =
    [(''HEADACHE'',
       [(''location'',
          [''Where exactly is the pain? (Front, back, or just one side?)'',
           ''Is the pain all over your head or focused in one spot?'']),
        (''duration'',
          [''How long have you had this headache?'',
           ''When did the pain start?'']),
        (''associated_symptoms'',
          [''Do you feel nauseous or sick to your stomach?'',
           ''Are you sensitive to bright lights or loud noises right now?'']),
        (''severity'',
          [''On a scale of 1-10, how bad is the pain?'',
           ''Is it a throbbing pain, a tight band, or a sharp stabbing sensation?''])]),
     (''DIZZINESS'',
       [(''sensation'',
          [''Does the room feel like it is spinning around you (vertigo), or do you just feel lightheaded?'',
           ''Do you feel like you might pass out, or are you just unsteady on your feet?'']),
        (''triggers'',
          [''Does standing up quickly make it worse?'',
           ''Does moving your head or rolling over in bed trigger the dizziness?'']),
        (''ears'',
          [''Do you hear any ringing or buzzing in your ears?'',
           ''Does your ear feel full or blocked?''])]),
     (''VISION'',
       [(''clarity'',
          [''Is your vision blurry, or are you seeing double of everything?'',
           ''Have you lost vision in any part of your eye (like a curtain coming down)?'']),
        (''disturbances'',
          [''Are you seeing flashing lights, zig-zag lines, or spots?'',
           ''Do bright lights hurt your eyes?'']),
        (''onset'',
          [''Did this vision change happen suddenly or gradually?'',
           ''Is it affecting one eye or both eyes?''])]),
     (''CONSCIOUSNESS'',
       [(''event'',
          [''Did you actually lose consciousness (black out) or just feel faint?'',
           ''Do you remember falling, or did you wake up on the floor?'']),
        (''warning'',
          [''Did you feel anything before it happened, like nausea or sweating?'',
           ''Were you doing anything specific (like exercising or standing up) when it happened?'']),
        (''aftermath'',
          [''Did you feel confused or extremely tired immediately after waking up?'',
           ''Did you bite your tongue or lose bladder control?''])]),
     (''GENERAL'',
       [(''weakness'',
          [''Do you have any numbness or tingling in your face, arms, or legs?'',
           ''Is one side of your body weaker than the other?'']),
        (''cognition'',
          [''Are you having trouble speaking or understanding words?'',
           ''Do you feel confused or disoriented?'']),
        (''history'',
          [''Have you ever had a seizure or stroke before?'',
           ''Are you currently on any medication?''])]),
     (''DEFAULT'',
       [(''assessment'',
          [''Can you describe the sensation you are feeling in more detail?'',
           ''When did you first notice this symptom?'',
           ''Is the symptom constant, or does it come and go?'',
           ''On a scale of 1-10, how much is this affecting your daily activities?''])])]"

definition RESPIRATORY_KEYWORDS :: "(string \<times> string list) list" where
  "RESPIRATORY_KEYWORDS =
    [(''BREATHING'',
       [''breath'', ''breathing'', ''short of breath'', ''gasp'', ''wheeze'', ''tight'',
        ''suffocate'', ''air'', ''pant'', ''asthma'', ''inhaler'']),
     (''COUGH'',
       [''cough'', ''hacking'', ''phlegm'', ''sputum'', ''mucus'', ''spit'', ''blood'',
        ''dry cough'', ''wet cough'', ''bark'']),
     (''INFECTION'',
       [''pneumonia'', ''bronchitis'', ''fever'', ''chills'', ''flu'', ''cold'',
        ''chest infection'', ''painful breath'']),
     (''GENERAL'',
       [''chest'', ''congestion'', ''stuff'', ''stuffed'', ''allergy'', ''sneeze'',
        ''runny nose'', ''nose'', ''sinus''])]"

definition RESPIRATORY_QUESTIONS :: "(string \<times> (string \<times> string list) list) list" where
  "RESPIRATORY_QUESTIONS =
    [(''BREATHING'',
       [(''onset'',
          [''Did this shortness of breath start suddenly or has it been getting worse over time?'',
           ''Does it happen when you are resting, or only when you exert yourself (like walking)?'']),
        (''severity'',
          [''On a scale of 1-10, how difficult is it to breathe right now?'',
           ''Do you feel like you can't get enough air into your lungs?'']),
        (''sounds'',
          [''Do you hear any wheezing or whistling sounds when you breathe?'',
           ''Is your chest feeling tight or heavy?''])]),
     (''COUGH'',
       [(''type'',
          [''Is your cough dry and tickly, or are you bringing up mucus (wet cough)?'',
           ''Does the cough happen more at night or during the day?'']),
        (''sputum'',
          [''If you are coughing up mucus, what color is it (clear, yellow, green, or rusty)?'',
           ''Have you coughed up any blood or pink froth?'']),
        (''duration'',
          [''How long have you had this cough?'',
           ''Is it getting worse or staying the same?''])]),
     (''INFECTION'',
       [(''systemic'',
          [''Do you have a high fever or chills along with the breathing issues?'',
           ''Do you feel generally weak or achy?'']),
        (''pain'',
          [''Does it hurt your chest when you take a deep breath (sharp stabbing pain)?'',
           ''Do your ribs hurt from coughing?'']),
        (''history'',
          [''Have you been around anyone sick recently?'',
           ''Have you had a cold or flu that moved into your chest?''])]),
     (''GENERAL'',
       [(''symptoms'',
          [''Do you have a runny or blocked nose?'',
           ''Are your eyes itchy or watery?'']),
        (''triggers'',
          [''Do you notice these symptoms more around pets, dust, or pollen?'',
           ''Does the weather change make it worse?'']),
        (''congestion'',
          [''Does your chest feel 'full' or congested?'',
           ''Are you having trouble clearing your throat?''])]),
     (''DEFAULT'',
       [(''assessment'',
          [''Can you describe exactly what you are feeling in your chest?'',
           ''How long has this been bothering you?'',
           ''Does anything make it better (like sitting up) or worse (like lying down)?'',
           ''Have you ever had lung problems before?''])])]"

definition ORTHO_KEYWORDS :: "(string \<times> string list) list" where
  "ORTHO_KEYWORDS =
    [(''SPINE_BACK'',
       [''back'', ''spine'', ''neck'', ''lumbar'', ''disc'', ''sciatica'', ''tailbone'',
        ''vertebrae'', ''stiff neck'']),
     (''JOINTS'',
       [''knee'', ''hip'', ''shoulder'', ''elbow'', ''joint'', ''arthritis'', ''socket'',
        ''rotator cuff'', ''meniscus'']),
     (''EXTREMITIES'',
       [''hand'', ''wrist'', ''finger'', ''thumb'', ''foot'', ''ankle'', ''toe'', ''heel'',
        ''plantar'', ''carpal'']),
     (''TRAUMA'',
       [''break'', ''broken'', ''fracture'', ''fall'', ''fell'', ''twist'', ''sprain'',
        ''accident'', ''hit'', ''crash'', ''pop'', ''snap'']),
     (''GENERAL'',
       [''muscle'', ''ache'', ''sore'', ''stiffness'', ''swelling'', ''swell'', ''bruise'',
        ''cramp'', ''knot''])]"

definition ORTHO_QUESTIONS :: "(string \<times> (string \<times> string list) list) list" where
  "ORTHO_QUESTIONS =
    [(''SPINE_BACK'',
       [(''radiation'',
          [''Does the pain shoot down your legs or arms?'',
           ''Do you feel any electric shock sensations traveling away from your back?'']),
        (''numbness'',
          [''Do you have any numbness, especially in your groin or buttocks area?'',
           ''Are you having any trouble controlling your bladder or bowels?'']),
        (''triggers'',
          [''Does it hurt more when you bend forward or lift things?'',
           ''Is the pain worse in the morning when you wake up?''])]),
     (''JOINTS'',
       [(''stiffness'',
          [''Is the joint stiff in the morning? If so, how long does it take to loosen up?'',
           ''Does the joint feel 'locked' or stuck?'']),
        (''swelling'',
          [''Is the area swollen, red, or hot to the touch?'',
           ''Can you see fluid buildup around the joint?'']),
        (''sounds'',
          [''Do you hear a clicking, grinding, or popping sound when you move it?'',
           ''Does it feel like 'bone on bone'?''])]),
     (''TRAUMA'',
       [(''mechanism'',
          [''How exactly did the injury happen (e.g., fell on outstretched hand, twisted knee)?'',
           ''Did you hear a loud 'pop' or 'snap' when it happened?'']),
        (''deformity'',
          [''Does the limb look bent, crooked, or misshapen?'',
           ''Is there any bone sticking out or a deep open wound?'']),
        (''function'',
          [''Can you put weight on it or move it at all?'',
           ''Are you able to walk, or is it too painful?''])]),
     (''EXTREMITIES'',
       [(''usage'',
          [''Does the pain get worse with specific activities like typing or walking?'',
           ''Is the pain worse when you take your first steps in the morning?'']),
        (''sensation'',
          [''Do you feel pins and needles or numbness in your fingers or toes?'',
           ''Does it feel like you are walking on a pebble?''])]),
     (''GENERAL'',
       [(''location'',
          [''Where exactly is the pain located?'',
           ''Is it deep in the bone or more in the muscle?'']),
        (''impact'',
          [''Is this stopping you from working or exercising?'',
           ''Does the pain wake you up at night?''])]),
     (''DEFAULT'',
       [(''assessment'',
          [''How long have you had this pain?'',
           ''On a scale of 1-10, how severe is it?'',
           ''Did you do any heavy lifting or exercise recently?''])])]"

definition DERMA_KEYWORDS :: "(string \<times> string list) list" where
  "DERMA_KEYWORDS =
    [(''RASH_ALLERGY'',
       [''rash'', ''hives'', ''eczema'', ''redness'', ''bump'', ''blister'', ''spot'',
        ''pimple'', ''acne'', ''breakout'', ''psoriasis'']),
     (''TRAUMA_BURN'',
       [''cut'', ''burn'', ''bleed'', ''wound'', ''scrape'', ''scald'', ''fire'', ''knife'',
        ''injury'', ''tear'', ''laceration'', ''hot'']),
     (''BITES'',
       [''bite'', ''sting'', ''spider'', ''bug'', ''mosquito'', ''tick'', ''bee'', ''wasp'',
        ''insect'']),
     (''GENERAL'',
       [''itch'', ''dry'', ''peel'', ''flake'', ''skin'', ''scab'', ''mole'', ''lump'',
        ''growth''])]"

definition DERMA_QUESTIONS :: "(string \<times> (string \<times> string list) list) list" where
  "DERMA_QUESTIONS =
    [(''RASH_ALLERGY'',
       [(''spread'',
          [''Is the rash spreading to other parts of your body?'',
           ''Is it staying in one spot or moving?'']),
        (''triggers'',
          [''Did you use any new soaps, lotions, or detergents recently?'',
           ''Have you eaten anything new or been out in the woods?'']),
        (''sensation'',
          [''Does the rash burn, itch, or feel hot to the touch?''])]),
     (''TRAUMA_BURN'',
       [(''depth'',
          [''How deep is the wound? Can you see fatty tissue or bone?'',
           ''For a burn, did the skin blister or turn white/black?'']),
        (''bleeding'',
          [''Is it bleeding heavily? Does it stop if you press on it?'',
           ''Is there any pulsing blood?'']),
        (''infection_signs'',
          [''Do you see any yellow pus or red streaks coming from the wound?'',
           ''Is the area swollen and painful?''])]),
     (''BITES'',
       [(''appearance'',
          [''What does the bite look like? (e.g., Bullseye pattern, two puncture marks)'',
           ''Is the area around the bite turning black or purple?'']),
        (''systemic'',
          [''Are you having any trouble breathing or swallowing?'',
           ''Do you feel dizzy or nauseous?''])]),
     (''GENERAL'',
       [(''duration'',
          [''How long have you had this skin issue?'',
           ''Has it changed in size or color recently?'']),
        (''location'',
          [''Where exactly on your body is the problem?'',
           ''Is it all over or just in one specific area?''])]),
     (''DEFAULT'',
       [(''assessment'',
          [''Can you describe what the skin looks like right now?'',
           ''Is it causing you pain or just discomfort?'',
           ''Have you applied any creams or medications to it?''])])]"

definition GENERAL_KEYWORDS :: "(string \<times> string list) list" where
  "GENERAL_KEYWORDS =
    [(''SUMMER_HYDRATION'',
       [''sun'', ''heat'', ''hot'', ''sweat'', ''dry'', ''thirsty'', ''water'', ''urine'',
        ''pee'', ''burn'', ''faint'', ''dizzy'', ''dehydrated'']),
     (''MONSOON_VECTOR'',
       [''mosquito'', ''bite'', ''shiver'', ''chill'', ''cold'', ''shake'', ''bone pain'',
        ''joint pain'', ''eye pain'', ''dengue'', ''malaria'']),
     (''WINTER_VIRAL'',
       [''flu'', ''cold'', ''sneeze'', ''runny'', ''nose'', ''ache'', ''body pain'',
        ''sore throat'', ''cough'', ''congestion'', ''viral'']),
     (''CHRONIC_METABOLIC'',
       [''tired'', ''fatigue'', ''weak'', ''weight'', ''loss'', ''gain'', ''hair'',
        ''hungry'', ''thirst'', ''sugar'', ''thyroid'', ''pale'', ''sleep'']),
     (''FLU_SYMPTOMS'',
       [''fever'', ''chill'', ''shiver'', ''temperature'', ''high temp'', ''sweat'',
        ''hot'', ''cold'', ''body ache'', ''muscle ache'', ''sore body'', ''weak'', ''flu'',
        ''viral'']),
     (''FATIGUE'',
       [''tired'', ''fatigue'', ''exhausted'', ''low energy'', ''sleepy'', ''draining'',
        ''lethargic'', ''no energy'', ''worn out'']),
     (''WEIGHT_APPETITE'',
       [''weight loss'', ''weight gain'', ''lost weight'', ''thin'', ''heavy'',
        ''no appetite'', ''hungry'', ''not eating'', ''eating too much''])]"

definition GENERAL_QUESTIONS :: "(string \<times> (string \<times> string list) list) list" where
  "GENERAL_QUESTIONS =
    [(''SUMMER_HYDRATION'',
       [(''intake'',
          [''How much water have you been drinking today?'',
           ''Have you been out in the sun or working in the heat recently?'']),
        (''urine_output'',
          [''is your urine dark yellow or does it burn when you pee?'',
           ''When was the last time you urinated?'']),
        (''mental_state'',
          [''Do you feel confused or like you might pass out?'',
           ''Has the sweating stopped completely (dry skin)?''])]),
     (''MONSOON_VECTOR'',
       [(''fever_pattern'',
          [''Does the fever come and go (like every other day), or is it constant?'',
           ''Do you have severe shivering (rigors) before the fever spikes?'']),
        (''pain_specifics'',
          [''Do you have severe pain behind your eyes?'',
           ''Does it feel like your bones are breaking (severe body ache)?'']),
        (''bleeding_check'',
          [''Have you noticed any bleeding from your gums or nose?'',
           ''Do you see any tiny red spots (rashes) on your skin?''])]),
     (''WINTER_VIRAL'',
       [(''respiratory_check'',
          [''Do you have a runny nose or sore throat?'',
           ''Is there a cough accompanying the body aches?'']),
        (''severity'',
          [''Do you feel like you've been 'hit by a truck' (sudden extreme fatigue)?'',
           ''Is the fever mild or very high?''])]),
     (''CHRONIC_METABOLIC'',
       [(''weight_energy'',
          [''Have you noticed any unexplained weight loss or weight gain?'',
           ''Do you feel tired even after a full night's sleep?'']),
        (''classic_signs'',
          [''Are you feeling thirsty or hungry all the time?'',
           ''Are you experiencing hair loss or dry skin?'']),
        (''timeline'',
          [''How long have you been feeling this 'general' weakness?'',
           ''Has anyone in your family had thyroid or sugar issues?''])]),
     (''FLU_SYMPTOMS'',
       [(''temperature'',
          [''Have you measured your temperature? If so, how high is it?'',
           ''Do you feel hot or feverish to the touch?'']),
        (''duration'',
          [''How many days have you been feeling this way?'',
           ''Did these symptoms start suddenly or gradually?'']),
        (''other_symptoms'',
          [''Do you have a cough, sore throat, or runny nose?'',
           ''Are you experiencing any other specific pains besides body aches?''])]),
     (''FATIGUE'',
       [(''sleep'',
          [''How have you been sleeping lately? Is it restful?'',
           ''Are you sleeping more than usual?'']),
        (''impact'',
          [''Is the tiredness affecting your daily work or activities?'',
           ''Do you feel tired even after waking up?'']),
        (''duration'',
          [''How long have you been feeling this low energy?'',
           ''Has this been going on for weeks or just a few days?''])]),
     (''WEIGHT_APPETITE'',
       [(''amount'',
          [''Have you noticed a significant change in your weight recently?'',
           ''Are you eating more or less than usual?'']),
        (''timeline'',
          [''Over what period of time has this change happened?'',
           ''Did this change happen quickly?''])]),
     (''DEFAULT'',
       [(''assessment'',
          [''Can you tell me your main symptom right now?'',
           ''Do you have a fever? If so, how high is it?'',
           ''Are you eating and drinking normally?''])])]"

definition SPECIALIST_QUESTIONS_gastro_literal ::
  "(string \<times> (string \<times> (string \<times> string list) list) list) list" where
  "SPECIALIST_QUESTIONS_gastro_literal = [(''GASTROINTESTINAL'', GASTRO_QUESTIONS)]"

definition SPECIALIST_QUESTIONS ::
  "(string \<times> (string \<times> (string \<times> string list) list) list) list" where
  "SPECIALIST_QUESTIONS =
     dict_set ''GENERAL_SYSTEMIC'' GENERAL_QUESTIONS
       (dict_set ''DERMATOLOGICAL'' DERMA_QUESTIONS
         (dict_set ''ORTHOPEDIC'' ORTHO_QUESTIONS
           (dict_set ''RESPIRATORY'' RESPIRATORY_QUESTIONS
             [(''NEUROLOGICAL'', NEURO_QUESTIONS)])))"

section \<open>The sub-group router\<close>

definition any_keyword :: "string list \<Rightarrow> string \<Rightarrow> bool" where
  "any_keyword keywords text = list_ex (\<lambda>w. contains text w) keywords"

fun first_subgroup :: "(string \<times> string list) list \<Rightarrow> string \<Rightarrow> string" where
  "first_subgroup [] text = ''DEFAULT''"
| "first_subgroup ((sub_group, keywords) # rest) text =
     (if any_keyword keywords text then sub_group else first_subgroup rest text)"

definition get_best_subgroup :: "string \<Rightarrow> string \<Rightarrow> string" where
  "get_best_subgroup text category =
     (let text = lower text;
          target_dict =
            (if category = ''GASTROINTESTINAL'' then GASTRO_KEYWORDS
             else if category = ''NEUROLOGICAL'' then NEURO_KEYWORDS
             else if category = ''RESPIRATORY'' then RESPIRATORY_KEYWORDS
             else if category = ''ORTHOPEDIC'' then ORTHO_KEYWORDS
             else if category = ''DERMATOLOGICAL'' then DERMA_KEYWORDS
             else if category = ''GENERAL_SYSTEMIC'' then GENERAL_KEYWORDS
             else [])
      in if target_dict = [] then ''DEFAULT'' else first_subgroup target_dict text)"

section \<open>The secretary: \<^verbatim>\<open>get_next_question\<close>\<close>

definition SEVERITY_PATTERN :: rx where
  "SEVERITY_PATTERN =
     Or (Lits [''mild'', ''moderate'', ''severe'', ''sharp'', ''dull'', ''excruciating'', ''bad''])
       (Or (Seq Digits1 (Seq Spaces0 (Seq (Lits [''/'']) (Seq Spaces0 (Lits [''10''])))))
           (Seq (Lits [''level'', ''score'', ''pain'']) (Seq Spaces1 Digits1)))"

definition duration_pattern :: rx where
  "duration_pattern =
     Seq (Or Digits1 (Lits [''one'', ''two'', ''three'', ''few'', ''several'']))
       (Seq Spaces0 (Lits [''day'', ''week'', ''month'', ''hour'', ''min'']))"

definition no_pattern :: rx where
  "no_pattern = Seq WordB (Seq (Lits [''no'', ''nah'', ''not'', ''nope'']) WordB)"

definition yes_pattern :: rx where
  "yes_pattern = Seq WordB (Seq (Lits [''yes'', ''yeah'', ''yep'', ''sure'']) WordB)"

text \<open>
  The yes/no handler. \<^verbatim>\<open>if last_asked_slot:\<close> holds for a slot name that is neither
  \<^verbatim>\<open>None\<close> nor empty.
\<close>

definition context_check :: "string option \<Rightarrow> string \<Rightarrow> string \<Rightarrow> clipboard \<Rightarrow> clipboard" where
  "context_check last_asked_slot user_text text_lower cb =
     (case last_asked_slot of
        None \<Rightarrow> cb
      | Some slot \<Rightarrow>
          if slot = [] then cb
          else if re_search no_pattern text_lower \<noteq> None then
            (if slot = ''severity'' then dict_set ''severity'' ''mild symptoms'' cb
             else if slot = ''triggers'' then dict_set ''triggers'' ''no known triggers'' cb
             else if slot = ''sensation'' then dict_set ''sensation'' ''no pain or burning'' cb
             else if slot = ''spread'' then dict_set ''spread'' ''no spread'' cb
             else dict_set slot user_text cb)
          else if re_search yes_pattern text_lower \<noteq> None then dict_set slot user_text cb
          else cb)"

text \<open>The two rules that run for every category: the whole match is stored.\<close>

definition extract_verbatim :: "rx \<Rightarrow> string \<Rightarrow> string \<Rightarrow> clipboard \<Rightarrow> clipboard" where
  "extract_verbatim pat slot text_lower cb =
     (case re_search pat text_lower of
        None \<Rightarrow> cb
      | Some m \<Rightarrow> dict_set slot (snd m) cb)"

text \<open>
  The rule shape of the category blocks: the match is stored under the slot, with the
  prefix \<^verbatim>\<open>"no "\<close> when the twenty characters before the match negate it.
\<close>

definition extract_slot :: "rx \<Rightarrow> string \<Rightarrow> string \<Rightarrow> clipboard \<Rightarrow> clipboard" where
  "extract_slot pat slot text_lower cb =
     (case re_search pat text_lower of
        None \<Rightarrow> cb
      | Some m \<Rightarrow>
          dict_set slot ((if check_negation text_lower (fst m) then ''no '' else '''') @ snd m) cb)"

text \<open>
  The rules with a red flag: after the slot is stored, \<^verbatim>\<open>URGENCY_OVERRIDE\<close> is set to the
  rule's level when the rule's extra condition on the utterance holds and the match of
  the rule's own pattern is not negated.
\<close>

definition extract_flagged ::
  "rx \<Rightarrow> string \<Rightarrow> bool \<Rightarrow> string \<Rightarrow> string \<Rightarrow> clipboard \<Rightarrow> clipboard" where
  "extract_flagged pat slot red_flag level text_lower cb =
     (case re_search pat text_lower of
        None \<Rightarrow> cb
      | Some m \<Rightarrow>
          (let is_negated = check_negation text_lower (fst m);
               cb = dict_set slot ((if is_negated then ''no '' else '''') @ snd m) cb
           in if red_flag \<and> \<not> is_negated then dict_set ''URGENCY_OVERRIDE'' level cb else cb))"

text \<open>A block of rules runs them one after the other on the clipboard.\<close>

definition run_steps :: "('s \<Rightarrow> 's) list \<Rightarrow> 's \<Rightarrow> 's" where
  "run_steps steps cb = foldl (\<lambda>c step. step c) cb steps"

text \<open>The patterns of the rules that carry a red flag, and of the flags' extra conditions.\<close>

definition stool_color_words :: rx where
  "stool_color_words =
     Lits [''blood'', ''red'', ''black'', ''tar'', ''dark stool'', ''coffee'']"

definition sputum_words :: rx where
  "sputum_words =
     Lits [''mucus'', ''phlegm'', ''sputum'', ''spit'', ''green'', ''yellow'', ''clear'',
           ''blood'', ''red'', ''pink'']"

definition hemoptysis_words :: rx where
  "hemoptysis_words =
     Lits [''blood'', ''red'', ''pink'']"

definition deformity_words :: rx where
  "deformity_words =
     Lits [''bent'', ''crooked'', ''shape'', ''bone'', ''sticking'', ''out'', ''deformed'',
           ''angle'']"

definition open_fracture_words :: rx where
  "open_fracture_words =
     Lits [''bone sticking'', ''bone out'', ''white'', ''open wound'']"

definition bleeding_words :: rx where
  "bleeding_words =
     Lits [''blood'', ''bleed'', ''gush'', ''soak'', ''pulsing'', ''stop'']"

definition hemorrhage_words :: rx where
  "hemorrhage_words =
     Lits [''gush'', ''won't stop'', ''pulsing'', ''heavy'']"

definition infection_words :: rx where
  "infection_words =
     Lits [''pus'', ''yellow'', ''ooze'', ''streak'', ''line'', ''hot'', ''smell'']"

definition red_streak_words :: rx where
  "red_streak_words =
     Lits [''streak'', ''line'']"

definition anaphylaxis_words :: rx where
  "anaphylaxis_words =
     Lits [''breath'', ''throat'', ''swallow'', ''dizzy'', ''faint'', ''tongue'', ''swell'']"

definition urine_output_words :: rx where
  "urine_output_words =
     Lits [''urine'', ''pee'', ''bathroom'', ''burn'', ''yellow'', ''dark'']"

definition heatstroke_words :: rx where
  "heatstroke_words =
     Lits [''stopped sweating'', ''no sweat'', ''dry skin'', ''confused'']"

definition bleeding_check_words :: rx where
  "bleeding_check_words =
     Lits [''bleed'', ''gum'', ''nose'', ''spot'', ''rash'', ''red'']"

text \<open>The six category blocks, each the ordered list of its rules.\<close>

definition extract_gastrointestinal :: "string \<Rightarrow> clipboard \<Rightarrow> clipboard" where
  "extract_gastrointestinal text_lower =
     run_steps
      [extract_slot
          (Lits [''vomit'', ''nausea'', ''puke'', ''throw up'', ''queasy'', ''dry heave''])
          ''vomiting'' text_lower,
       extract_slot
          (Lits [''diarrhea'', ''constipation'', ''poop'', ''stool'', ''loose'', ''runny''])
          ''bowel'' text_lower,
       extract_slot
          (Lits [''bloat'', ''gas'', ''fart'', ''fullness'', ''air'', ''burp''])
          ''bloating'' text_lower,
       extract_slot
          (Lits [''ate'', ''food'', ''meal'', ''restaurant'', ''spicy'', ''oily'', ''sushi'',
                 ''chicken''])
          ''triggers'' text_lower,
       extract_flagged stool_color_words ''stool_color'' True
          ''CRITICAL'' text_lower,
       extract_slot
          (Lits [''water'', ''drink'', ''thirsty'', ''dry mouth'', ''pee'', ''urine''])
          ''hydration'' text_lower]"

definition extract_respiratory :: "string \<Rightarrow> clipboard \<Rightarrow> clipboard" where
  "extract_respiratory text_lower =
     run_steps
      [extract_slot
          (Lits [''sudden'', ''slow'', ''gradual'', ''rest'', ''walk'', ''run'', ''exercise'',
                 ''exert''])
          ''onset'' text_lower,
       extract_slot
          (Lits [''wheeze'', ''whistle'', ''gasp'', ''squeak'', ''noisy'', ''stridor''])
          ''sounds'' text_lower,
       extract_slot
          (Lits [''dry'', ''wet'', ''hack'', ''tickle'', ''productive'', ''bark''])
          ''type'' text_lower,
       extract_flagged sputum_words ''sputum'' (re_search hemoptysis_words text_lower \<noteq> None)
          ''CRITICAL'' text_lower,
       extract_slot
          (Lits [''fever'', ''hot'', ''temp'', ''chill'', ''shiver'', ''sweat'', ''ache'',
                 ''weak''])
          ''systemic'' text_lower,
       extract_slot
          (Lits [''hurt'', ''pain'', ''stab'', ''sharp'', ''rib'', ''burn''])
          ''pain'' text_lower,
       extract_slot
          (Lits [''dust'', ''pollen'', ''cat'', ''dog'', ''pet'', ''smoke'', ''weather'',
                 ''season''])
          ''triggers'' text_lower,
       extract_slot
          (Lits [''stuff'', ''block'', ''full'', ''clog'', ''drip''])
          ''congestion'' text_lower]"

definition extract_neurological :: "string \<Rightarrow> clipboard \<Rightarrow> clipboard" where
  "extract_neurological text_lower =
     run_steps
      [extract_slot
          (Lits [''front'', ''back'', ''side'', ''temple'', ''forehead'', ''skull'', ''left'',
                 ''right'', ''spot'', ''all over''])
          ''location'' text_lower,
       extract_slot
          (Lits [''nausea'', ''sick'', ''vomit'', ''puke'', ''light'', ''bright'', ''sound'',
                 ''noise'', ''loud'', ''eye hurt''])
          ''associated_symptoms'' text_lower,
       extract_slot
          (Lits [''spin'', ''room'', ''round'', ''lightheaded'', ''woozy'', ''faint'',
                 ''unsteady'', ''balance'', ''fall''])
          ''sensation'' text_lower,
       extract_slot
          (Lits [''stand'', ''up'', ''rise'', ''bed'', ''roll'', ''turn'', ''move head'',
                 ''lying''])
          ''triggers'' text_lower,
       extract_slot
          (Lits [''ring'', ''buzz'', ''ear'', ''full'', ''pop'', ''muffle'', ''hear'',
                 ''tinnitus''])
          ''ears'' text_lower,
       extract_slot
          (Lits [''blur'', ''double'', ''blind'', ''curtain'', ''dark'', ''see'', ''focus'',
                 ''fog''])
          ''clarity'' text_lower,
       extract_slot
          (Lits [''flash'', ''spot'', ''zig'', ''zag'', ''line'', ''star'', ''halo'', ''spark''])
          ''disturbances'' text_lower,
       extract_slot
          (Lits [''sudden'', ''instant'', ''gradual'', ''slow'', ''woke up''])
          ''onset'' text_lower,
       extract_slot
          (Lits [''black'', ''faint'', ''pass out'', ''floor'', ''wake'', ''remember'',
                 ''conscious''])
          ''event'' text_lower,
       extract_slot
          (Lits [''aura'', ''smell'', ''sweat'', ''hot'', ''nausea'', ''dizzy before''])
          ''warning'' text_lower,
       extract_slot
          (Lits [''confuse'', ''tired'', ''sleepy'', ''bite'', ''tongue'', ''wet'', ''urine'',
                 ''sore''])
          ''aftermath'' text_lower,
       extract_slot
          (Lits [''numb'', ''tingle'', ''weak'', ''pin'', ''needle'', ''feel'', ''arm'',
                 ''leg'', ''face'', ''droop''])
          ''weakness'' text_lower,
       extract_slot
          (Lits [''speak'', ''slur'', ''word'', ''talk'', ''understand'', ''confuse'',
                 ''memory'', ''disorient''])
          ''cognition'' text_lower,
       extract_slot
          (Lits [''stroke'', ''seizure'', ''epilepsy'', ''medication'', ''drug'', ''history'',
                 ''before''])
          ''history'' text_lower]"

definition extract_orthopedic :: "string \<Rightarrow> clipboard \<Rightarrow> clipboard" where
  "extract_orthopedic text_lower =
     run_steps
      [extract_slot
          (Lits [''shoot'', ''leg'', ''arm'', ''travel'', ''down'', ''radiate'', ''electric'',
                 ''shock''])
          ''radiation'' text_lower,
       extract_slot
          (Lits [''numb'', ''groin'', ''butt'', ''bladder'', ''bowel'', ''toilet'', ''control''])
          ''numbness'' text_lower,
       extract_slot
          (Lits [''lock'', ''stuck'', ''click'', ''grind'', ''pop'', ''noise'', ''crunch''])
          ''sounds'' text_lower,
       extract_slot
          (Lits [''swell'', ''swollen'', ''puff'', ''red'', ''hot'', ''warm'', ''fluid'',
                 ''balloon''])
          ''swelling'' text_lower,
       extract_slot
          (Lits [''fall'', ''fell'', ''trip'', ''hit'', ''twist'', ''land'', ''crush'',
                 ''accident''])
          ''mechanism'' text_lower,
       extract_slot
          (Lits [''walk'', ''stand'', ''weight'', ''move'', ''step'', ''lift''])
          ''function'' text_lower,
       extract_flagged deformity_words ''deformity'' (re_search open_fracture_words text_lower \<noteq> None)
          ''CRITICAL'' text_lower,
       extract_slot
          (Lits [''type'', ''computer'', ''morning'', ''first step'', ''walk'', ''run'',
                 ''shoe''])
          ''usage'' text_lower]"

definition extract_dermatological :: "string \<Rightarrow> clipboard \<Rightarrow> clipboard" where
  "extract_dermatological text_lower =
     run_steps
      [extract_slot
          (Lits [''soap'', ''lotion'', ''food'', ''plant'', ''woods'', ''detergent''])
          ''triggers'' text_lower,
       extract_slot
          (Lits [''itch'', ''burn'', ''sting'', ''pain'', ''hot'', ''fire''])
          ''sensation'' text_lower,
       extract_slot
          (Lits [''spread'', ''move'', ''growing'', ''bigger'', ''body'', ''all over''])
          ''spread'' text_lower,
       extract_slot
          (Lits [''deep'', ''bone'', ''fat'', ''white'', ''charred'', ''blister'', ''open''])
          ''depth'' text_lower,
       extract_flagged bleeding_words ''bleeding'' (re_search hemorrhage_words text_lower \<noteq> None)
          ''CRITICAL'' text_lower,
       extract_flagged infection_words ''infection_signs'' (re_search red_streak_words text_lower \<noteq> None)
          ''HIGH'' text_lower,
       extract_flagged anaphylaxis_words ''systemic'' True
          ''CRITICAL'' text_lower,
       extract_slot
          (Lits [''face'', ''arm'', ''leg'', ''back'', ''hand'', ''foot'', ''stomach''])
          ''location'' text_lower]"

definition extract_general_systemic :: "string \<Rightarrow> clipboard \<Rightarrow> clipboard" where
  "extract_general_systemic text_lower =
     run_steps
      [extract_slot
          (Lits [''sun'', ''heat'', ''work'', ''outside'', ''sweat'', ''hot'', ''dry'',
                 ''faint'', ''dizzy''])
          ''intake'' text_lower,
       extract_flagged urine_output_words ''urine_output'' (re_search heatstroke_words text_lower \<noteq> None)
          ''CRITICAL'' text_lower,
       extract_slot
          (Lits [''fever'', ''temperature'', ''sick'', ''ill'', ''unwell'', ''symptom''])
          ''assessment'' text_lower,
       extract_slot
          (Lits [''shiver'', ''chill'', ''shake'', ''cold'', ''night''])
          ''fever_pattern'' text_lower,
       extract_slot
          (Lits [''eye'', ''bone'', ''joint'', ''break'', ''muscle''])
          ''pain_specifics'' text_lower,
       extract_flagged bleeding_check_words ''bleeding_check'' (contains text_lower ''bleed'')
          ''HIGH'' text_lower,
       extract_slot
          (Lits [''nose'', ''throat'', ''sneeze'', ''cough'', ''chest'', ''congestion''])
          ''respiratory_check'' text_lower,
       extract_slot
          (Lits [''weight'', ''thin'', ''fat'', ''loss'', ''gain'', ''sleep'', ''tired''])
          ''weight_energy'' text_lower,
       extract_slot
          (Lits [''thirsty'', ''hungry'', ''eat'', ''drink'', ''hair'', ''skin''])
          ''classic_signs'' text_lower,
       extract_slot
          (Lits [''family'', ''mom'', ''dad'', ''genetic'', ''sugar'', ''thyroid''])
          ''timeline'' text_lower]"
definition extract_category :: "string \<Rightarrow> string \<Rightarrow> clipboard \<Rightarrow> clipboard" where
  "extract_category category text_lower cb =
     (if category = ''GASTROINTESTINAL'' then extract_gastrointestinal text_lower cb
      else if category = ''RESPIRATORY'' then extract_respiratory text_lower cb
      else if category = ''NEUROLOGICAL'' then extract_neurological text_lower cb
      else if category = ''ORTHOPEDIC'' then extract_orthopedic text_lower cb
      else if category = ''DERMATOLOGICAL'' then extract_dermatological text_lower cb
      else if category = ''GENERAL_SYSTEMIC'' then extract_general_systemic text_lower cb
      else cb)"

text \<open>
  The four redirect checks at the end of the GENERAL\_SYSTEMIC block, in their order; the
  result is the category stamped into \<^verbatim>\<open>category_redirect\<close>.
\<close>

definition redirect_check :: "string \<Rightarrow> string option" where
  "redirect_check text_lower =
     (if re_search (Lits [''stomach'', ''vomit'', ''puke'', ''diarrhea'', ''nausea'', ''poop''])
           text_lower \<noteq> None
      then Some ''GASTROINTESTINAL''
      else if re_search (Lits [''wheeze'', ''short of breath'', ''asthma'', ''lung'']) text_lower \<noteq> None
      then Some ''RESPIRATORY''
      else if re_search (Lits [''seizure'', ''blind'', ''vision'', ''double'', ''slur'']) text_lower \<noteq> None
      then Some ''NEUROLOGICAL''
      else if re_search (Lits [''rash'', ''hives'', ''itch'', ''skin'', ''bump'']) text_lower \<noteq> None
      then Some ''DERMATOLOGICAL''
      else None)"

text \<open>
  \<^verbatim>\<open>random.choice(question_list)\<close>, with the random draw \<open>r\<close> made explicit. Every
  question list of the configuration is non-empty.
\<close>

definition random_choice :: "nat \<Rightarrow> 'a list \<Rightarrow> 'a" where
  "random_choice r xs = xs ! (r mod length xs)"

text \<open>
  Step 3 of \<^verbatim>\<open>get_next_question\<close>: the first slot of the (category, sub-group) entry
  that the clipboard does not hold. The question bank is a parameter, so that the step
  can also be read against the dictionary literal that the module overwrites.
\<close>

fun first_missing ::
  "(string \<times> string list) list \<Rightarrow> clipboard \<Rightarrow> nat \<Rightarrow> string option \<times> string option" where
  "first_missing [] cb r = (None, None)"
| "first_missing ((slot, question_list) # rest) cb r =
     (if dict_get cb slot = None then (Some (random_choice r question_list), Some slot)
      else first_missing rest cb r)"

definition pick_question ::
  "(string \<times> (string \<times> (string \<times> string list) list) list) list \<Rightarrow>
     string \<Rightarrow> string \<Rightarrow> clipboard \<Rightarrow> nat \<Rightarrow> string option \<times> string option" where
  "pick_question bank category sub_group cb r =
     (let required_slots = dict_get_or (dict_get_or bank category []) sub_group []
      in first_missing required_slots cb r)"

text \<open>
  The clipboard is mutated in place by the Python function; here the new clipboard is
  returned beside the pair (question, slot).
\<close>

definition extract_all :: "string \<Rightarrow> string \<Rightarrow> string option \<Rightarrow> clipboard \<Rightarrow> clipboard" where
  "extract_all category user_text last_asked_slot cb =
     (let text_lower = lower user_text;
          cb = context_check last_asked_slot user_text text_lower cb;
          cb = extract_verbatim duration_pattern ''duration'' text_lower cb;
          cb = extract_verbatim SEVERITY_PATTERN ''severity'' text_lower cb
      in extract_category category text_lower cb)"

definition get_next_question ::
  "string \<Rightarrow> string \<Rightarrow> string \<Rightarrow> clipboard \<Rightarrow> string option \<Rightarrow> nat \<Rightarrow>
     (string option \<times> string option) \<times> clipboard" where
  "get_next_question category sub_group user_text current_clipboard last_asked_slot r =
     (let cb = extract_all category user_text last_asked_slot current_clipboard
      in case (if category = ''GENERAL_SYSTEMIC'' then redirect_check (lower user_text) else None) of
           Some target \<Rightarrow> ((None, Some ''redirect''), dict_set ''category_redirect'' target cb)
         | None \<Rightarrow> (pick_question SPECIALIST_QUESTIONS category sub_group cb r, cb))"

section \<open>The summary generator\<close>

definition summary_general :: "clipboard \<Rightarrow> string list" where
  "summary_general cb =
     map (\<lambda>(k, v). if v \<noteq> ''Filled'' then v
                    else capitalize (map (\<lambda>c. if c = CHR ''_'' then CHR '' '' else c) k))
       (filter (\<lambda>(k, v). k \<notin> set [''duration'', ''severity'', ''category_redirect'', ''URGENCY_OVERRIDE''])
          cb)"

definition generate_summary :: "clipboard \<Rightarrow> string \<Rightarrow> string" where
  "generate_summary cb final_category =
     (let duration = dict_get_or cb ''duration'' ''unknown duration'';
          severity = dict_get_or cb ''severity'' ''undetermined severity''
      in
      if final_category = ''ORTHOPEDIC'' then
        (let location = dict_get_or cb ''location'' ''an extremity'';
             mechanism = dict_get_or cb ''mechanism'' ''an injury'';
             summary = ''Patient presents with '' @ location @ '' injury following '' @ mechanism
                         @ '', reporting '' @ severity @ '' pain.'';
             summary = (case dict_get cb ''deformity'' of None \<Rightarrow> summary
                        | Some d \<Rightarrow> summary @ '' Noting '' @ d @ ''.'');
             summary = (case dict_get cb ''function'' of None \<Rightarrow> summary
                        | Some f \<Rightarrow> summary @ '' Functionality is '' @ f @ ''.'')
         in summary)
      else if final_category = ''GASTROINTESTINAL'' then
        (let symptoms = concat (map (\<lambda>k. case dict_get cb k of None \<Rightarrow> [] | Some v \<Rightarrow> [v])
                                  [''vomiting'', ''bowel'', ''bloating'', ''stool_color'']);
             clean_symptoms = filter (\<lambda>s. s \<noteq> ''Filled'') symptoms;
             symptoms_text = (if clean_symptoms \<noteq> [] then join '', '' clean_symptoms else ''GI symptoms'');
             triggers = dict_get_or cb ''triggers'' ''unknown causes''
         in ''Patient reports '' @ symptoms_text @ '' triggered by '' @ triggers
              @ '', persisting for '' @ duration @ '' with '' @ severity @ ''.'')
      else if final_category = ''RESPIRATORY'' then
        (let onset = dict_get_or cb ''onset'' ''onset'';
             cough_type = dict_get_or cb ''type'' ''cough'';
             sputum = dict_get_or cb ''sputum'' ''no sputum'';
             summary = ''Patient presents with '' @ onset @ '' respiratory symptoms, characterized by ''
                         @ cough_type @ ''.'';
             summary = (case dict_get cb ''sounds'' of None \<Rightarrow> summary
                        | Some s \<Rightarrow> summary @ '' Breath sounds described as '' @ s @ ''.'');
             summary = (case dict_get cb ''sputum'' of None \<Rightarrow> summary
                        | Some s \<Rightarrow> if s \<noteq> ''Filled'' then summary @ '' Sputum is '' @ sputum @ ''.''
                                    else summary)
         in summary)
      else if final_category = ''NEUROLOGICAL'' then
        (let location = dict_get_or cb ''location'' ''head/body'';
             sensation = dict_get_or cb ''sensation'' ''neurological sensation'';
             summary = ''Patient reports '' @ sensation @ '' involving '' @ location @ '' for ''
                         @ duration @ ''.'';
             summary = (case dict_get cb ''associated_symptoms'' of None \<Rightarrow> summary
                        | Some a \<Rightarrow> summary @ '' Associated with '' @ a @ ''.'');
             summary = (case dict_get cb ''event'' of None \<Rightarrow> summary
                        | Some e \<Rightarrow> summary @ '' Reports consciousness event: '' @ e @ ''.'')
         in summary)
      else if final_category = ''DERMATOLOGICAL'' then
        (let location = dict_get_or cb ''location'' ''skin'';
             triggers = dict_get_or cb ''triggers'' ''unknown triggers'';
             summary =
               (if triggers = ''no known triggers''
                then ''Patient presents with cutaneous symptoms on '' @ location @ ''. No triggers reported.''
                else ''Patient presents with cutaneous symptoms on '' @ location @ '' triggered by ''
                       @ triggers @ ''.'');
             summary = (case dict_get cb ''sensation'' of None \<Rightarrow> summary
                        | Some s \<Rightarrow> summary @ '' Reports sensation of '' @ s @ ''.'');
             summary = (case dict_get cb ''spread'' of None \<Rightarrow> summary
                        | Some s \<Rightarrow> summary @ '' Noting spread: '' @ s @ ''.'');
             summary = (case dict_get cb ''infection_signs'' of None \<Rightarrow> summary
                        | Some s \<Rightarrow> summary @ '' Possible infection signs: '' @ s @ ''.'')
         in summary)
      else
        (let symptoms_list = summary_general cb;
             symptoms_text = (if symptoms_list \<noteq> [] then join '', '' symptoms_list else ''general symptoms'')
         in ''Patient reports '' @ symptoms_text @ '' for '' @ duration @ '' with '' @ severity @ ''.''))"

section \<open>The \<^verbatim>\<open>/predict\<close> endpoint\<close>

text \<open>
  A session is the dictionary stored in \<^verbatim>\<open>active_sessions\<close> under the user identifier.
  The record store is the table \<^verbatim>\<open>consultations\<close>, kept as the list of its rows in
  insertion order (the order of \<^verbatim>\<open>created_at\<close>); the column \<^verbatim>\<open>status\<close> is the field
  \<open>case_status\<close>, and \<^verbatim>\<open>case_id\<close> is the autoincrement key.
\<close>

record session =
  clipboard :: clipboard
  subgroup :: string
  last_slot :: "string option"
  category :: string
  status :: string

record consultation =
  case_id :: nat
  user_id :: int
  ai_summary :: string
  predicted_category :: string
  urgency_score :: string
  doctor_assigned :: string
  case_status :: string

record server =
  active_sessions :: "int \<Rightarrow> session option"
  consultations :: "consultation list"

text \<open>
  The three database statements of the endpoint can raise; which of them do is an input
  of the model. The messages of the responses are kept as constructors.
\<close>

record db_faults =
  select_fails :: bool
  update_fails :: bool
  insert_fails :: bool

datatype error = HTTP_500 | KeyError

datatype message = Chat_Locked | Reply_Sent | Question string | Diagnosis_Complete string

record response =
  message :: message
  locked :: bool

definition find_open_case :: "consultation list \<Rightarrow> int \<Rightarrow> consultation option" where
  "find_open_case rows uid =
     (case filter (\<lambda>c. user_id c = uid \<and> case_status c \<in> set [''PENDING'', ''NEEDS_INFO'']) rows of
        [] \<Rightarrow> None
      | c # cs \<Rightarrow> Some (last (c # cs)))"

text \<open>Step 2.A of the endpoint: the keyword heuristics that choose the category of a new session.\<close>

definition predict_category :: "string \<Rightarrow> string" where
  "predict_category text =
     (let text_lower = lower text in
      if any_keyword [''cough'', ''breath'', ''chest'', ''wheeze'', ''lung''] text_lower
      then ''RESPIRATORY''
      else if any_keyword [''head'', ''dizzy'', ''migraine'', ''seizure'', ''vision'', ''faint''] text_lower
      then ''NEUROLOGICAL''
      else if any_keyword [''skin'', ''rash'', ''itch'', ''blister'', ''burn'', ''hives''] text_lower
      then ''DERMATOLOGICAL''
      else if any_keyword [''bone'', ''fracture'', ''knee'', ''back'', ''joint'', ''swollen''] text_lower
      then ''ORTHOPEDIC''
      else if any_keyword [''stomach'', ''vomit'', ''puke'', ''diarrhea'', ''nausea'', ''pain''] text_lower
      then ''GASTROINTESTINAL''
      else ''GENERAL_SYSTEMIC'')"

definition new_session :: "string \<Rightarrow> session" where
  "new_session text =
     \<lparr>clipboard = [], subgroup = ''DEFAULT'', last_slot = None,
      category = predict_category text, status = ''ACTIVE''\<rparr>"

text \<open>
  Step 3 of the endpoint, the logic engine: the mini-router with its pre-fill call, the
  call that picks the question, and the silent switch after a redirect. The result is
  the pair (question, slot) and the session as the step leaves it; the field
  \<open>last_slot\<close> is written by step 4.
\<close>

definition run_logic_engine ::
  "nat \<Rightarrow> session \<Rightarrow> string \<Rightarrow> error + ((string option \<times> string option) \<times> session)" where
  "run_logic_engine r s text =
     (let current_category = category s;
          cb = clipboard s;
          sub_group = subgroup s;
          new_subgroup = (if sub_group = ''DEFAULT'' then get_best_subgroup text current_category
                          else ''DEFAULT'');
          routed = (sub_group = ''DEFAULT'' \<and> new_subgroup \<noteq> ''DEFAULT'');
          sub_group = (if routed then new_subgroup else sub_group);
          cb = (if routed then snd (get_next_question current_category sub_group text cb None r) else cb);
          (answer, cb) = get_next_question current_category sub_group text cb (last_slot s) r
      in if snd answer = Some ''redirect'' then
           (case dict_get cb ''category_redirect'' of
              None \<Rightarrow> Inl KeyError
            | Some new_cat \<Rightarrow>
                (let new_sub = get_best_subgroup text new_cat;
                     cb = snd (get_next_question new_cat new_sub text cb None r);
                     (answer, cb) = get_next_question new_cat new_sub [] cb None r
                 in Inr (answer, s\<lparr>clipboard := cb, subgroup := new_sub, category := new_cat\<rparr>)))
         else Inr (answer, s\<lparr>clipboard := cb, subgroup := sub_group\<rparr>))"

definition specialist_map :: "(string \<times> string) list" where
  "specialist_map =
     [(''GASTROINTESTINAL'', ''Gastroenterologist''),
      (''NEUROLOGICAL'', ''Neurologist''),
      (''RESPIRATORY'', ''Pulmonologist''),
      (''ORTHOPEDIC'', ''Orthopedist''),
      (''DERMATOLOGICAL'', ''Dermatologist''),
      (''GENERAL_SYSTEMIC'', ''General Physician'')]"

definition predict_disease ::
  "db_faults \<Rightarrow> nat \<Rightarrow> server \<Rightarrow> int \<Rightarrow> string \<Rightarrow> (error + response) \<times> server" where
  "predict_disease faults r srv uid text =
     (if select_fails faults then (Inl HTTP_500, srv)
      else
        let existing_case = find_open_case (consultations srv) uid in
        if (case existing_case of Some c \<Rightarrow> case_status c = ''PENDING'' | None \<Rightarrow> False)
        then (Inr \<lparr>message = Chat_Locked, locked = True\<rparr>, srv)
        else
          let sessions = (case active_sessions srv uid of
                            None \<Rightarrow> (active_sessions srv)(uid \<mapsto> new_session text)
                          | Some _ \<Rightarrow> active_sessions srv);
              s = (case sessions uid of Some s \<Rightarrow> s | None \<Rightarrow> new_session text);
              needs_info = (case existing_case of Some c \<Rightarrow> case_status c = ''NEEDS_INFO'' | None \<Rightarrow> False)
          in
          if needs_info \<and> \<not> update_fails faults then
            (Inr \<lparr>message = Reply_Sent, locked = True\<rparr>,
             \<lparr>active_sessions = sessions(uid := None),
              consultations =
                map (\<lambda>c. if Some (case_id c) = map_option case_id existing_case
                          then c\<lparr>ai_summary := ''PATIENT REPLIED: '' @ text, case_status := ''PENDING''\<rparr>
                          else c)
                  (consultations srv)\<rparr>)
          else
            (case run_logic_engine r s text of
               Inl e \<Rightarrow> (Inl e, srv\<lparr>active_sessions := sessions\<rparr>)
             | Inr ((next_q, slot), s) \<Rightarrow>
                 if next_q \<noteq> None \<and> next_q \<noteq> Some [] then
                   (Inr \<lparr>message = Question (case next_q of Some q \<Rightarrow> q | None \<Rightarrow> []), locked = False\<rparr>,
                    srv\<lparr>active_sessions := sessions(uid \<mapsto> s\<lparr>last_slot := slot\<rparr>)\<rparr>)
                 else
                   let summary = generate_summary (clipboard s) (category s);
                       specialist = dict_get_or specialist_map (category s) ''General Physician''
                   in
                   if insert_fails faults
                   then (Inl HTTP_500, srv\<lparr>active_sessions := sessions(uid \<mapsto> s)\<rparr>)
                   else
                     (Inr \<lparr>message = Diagnosis_Complete specialist, locked = True\<rparr>,
                      \<lparr>active_sessions = sessions(uid := None),
                       consultations = consultations srv @
                         [\<lparr>case_id = Suc (length (consultations srv)), user_id = uid,
                           ai_summary = summary, predicted_category = category s,
                           urgency_score = ''Normal'', doctor_assigned = specialist,
                           case_status = ''PENDING''\<rparr>]\<rparr>)))"

section \<open>Notions used to state the properties\<close>

text \<open>
  A red flag fires on an utterance when the rule's pattern matches, the rule's extra
  condition holds and the match is not negated: the condition under which the rule
  assigns \<^verbatim>\<open>URGENCY_OVERRIDE\<close>.
\<close>

definition fires :: "rx \<Rightarrow> bool \<Rightarrow> string \<Rightarrow> bool" where
  "fires pat red_flag text_lower =
     (case re_search pat text_lower of
        None \<Rightarrow> False
      | Some m \<Rightarrow> red_flag \<and> \<not> check_negation text_lower (fst m))"

text \<open>
  The negation detector as the specification words it: the window is the (at most) twenty
  characters that end just before the match position, and a token occurs in it as a whole
  word when a copy of the token lies in the window with no word character next to it
  on either side inside the window.
\<close>

definition preceding_window :: "string \<Rightarrow> nat \<Rightarrow> string" where
  "preceding_window text index = (let before = take index text in drop (length before - 20) before)"

definition whole_word_at :: "string \<Rightarrow> string \<Rightarrow> nat \<Rightarrow> bool" where
  "whole_word_at tok w i \<longleftrightarrow>
     i + length tok \<le> length w \<and> take (length tok) (drop i w) = tok \<and>
     (i = 0 \<or> \<not> is_word (w ! (i - 1))) \<and>
     (i + length tok = length w \<or> \<not> is_word (w ! (i + length tok)))"

definition occurs_whole_word :: "string \<Rightarrow> string \<Rightarrow> bool" where
  "occurs_whole_word tok w \<longleftrightarrow> (\<exists>i \<in> set [0 ..< Suc (length w)]. whole_word_at tok w i)"

text \<open>
  A sequence of dictionary assignments, and the steps whose whole effect on a dictionary
  is such a sequence, the same for every dictionary, with its (key, value) pairs in \<open>K\<close>.
\<close>

definition writes :: "('k \<times> 'v) list \<Rightarrow> ('k \<times> 'v) list \<Rightarrow> ('k \<times> 'v) list" where
  "writes ws d = foldl (\<lambda>d (k, v). dict_set k v d) d ws"

definition assigns :: "('k \<times> 'v) set \<Rightarrow> (('k \<times> 'v) list \<Rightarrow> ('k \<times> 'v) list) \<Rightarrow> bool" where
  "assigns K f \<longleftrightarrow> (\<exists>ws. set ws \<subseteq> K \<and> (\<forall>d. f d = writes ws d))"

text \<open>
  The assignments the category blocks make: never to the keys of the two general rules
  or of the redirect stamp, and to \<^verbatim>\<open>URGENCY_OVERRIDE\<close> only one of the two levels.
\<close>

definition category_writes :: "(string \<times> string) set" where
  "category_writes =
     {(k, v). k \<noteq> ''duration'' \<and> k \<noteq> ''severity'' \<and> k \<noteq> ''category_redirect'' \<and>
              (k = ''URGENCY_OVERRIDE'' \<longrightarrow> v = ''HIGH'' \<or> v = ''CRITICAL'')}"

text \<open>
  The assignments a turn may make when the slot asked before it is \<open>asked\<close>: anything
  under the asked slot, and under \<^verbatim>\<open>URGENCY_OVERRIDE\<close> only the two levels.
\<close>

definition permitted :: "string option \<Rightarrow> (string \<times> string) set" where
  "permitted asked =
     {(k, v). Some k = asked \<or> (k = ''URGENCY_OVERRIDE'' \<longrightarrow> v = ''HIGH'' \<or> v = ''CRITICAL'')}"

text \<open>The slot names of a question bank.\<close>

definition bank_slots ::
  "(string \<times> (string \<times> (string \<times> string list) list) list) list \<Rightarrow> string list" where
  "bank_slots bank = concat (map (\<lambda>(c, groups). concat (map (\<lambda>(g, slots). map fst slots) groups)) bank)"

text \<open>What the yes/no handler stores for a negative answer to the question about a slot.\<close>

definition negative_answer :: "string \<Rightarrow> string \<Rightarrow> string" where
  "negative_answer slot user_text =
     (if slot = ''severity'' then ''mild symptoms''
      else if slot = ''triggers'' then ''no known triggers''
      else if slot = ''sensation'' then ''no pain or burning''
      else if slot = ''spread'' then ''no spread''
      else user_text)"

text \<open>
  What one turn of the logic engine extracts from the utterance alone: the clipboard
  that the turn leaves when it starts from the empty clipboard.
\<close>

definition turn_extraction :: "nat \<Rightarrow> session \<Rightarrow> string \<Rightarrow> clipboard" where
  "turn_extraction r s text =
     (case run_logic_engine r (s\<lparr>clipboard := []\<rparr>) text of
        Inl e \<Rightarrow> []
      | Inr (answer, s') \<Rightarrow> clipboard s')"

text \<open>A server with no session and no case, and a database that does not fail.\<close>

definition empty_server :: server where
  "empty_server = \<lparr>active_sessions = (\<lambda>uid. None), consultations = []\<rparr>"

definition no_faults :: db_faults where
  "no_faults = \<lparr>select_fails = False, update_fails = False, insert_fails = False\<rparr>"

section \<open>Dictionaries and sequences of assignments\<close>

lemma writes_Nil [simp]: "writes [] d = d"
  by (simp add: writes_def)

lemma writes_Cons [simp]: "writes ((k, v) # ws) d = writes ws (dict_set k v d)"
  by (simp add: writes_def)

lemma writes_append: "writes (ws @ ws') d = writes ws' (writes ws d)"
  by (simp add: writes_def)

lemma map_of_dict_set: "map_of (dict_set k v d) = (map_of d)(k \<mapsto> v)"
  by (simp add: dict_set_def update_conv')

lemma map_of_writes: "map_of (writes ws d) = map_of d ++ map_of (rev ws)"
proof (induction ws arbitrary: d)
  case Nil
  then show ?case by simp
next
  case (Cons w ws)
  obtain k v where w: "w = (k, v)" by (cases w)
  show ?case
    by (simp add: w Cons.IH map_of_dict_set map_of_append fun_eq_iff map_add_def split: option.splits)
qed

lemma keys_dict_set:
  "map fst (dict_set k v d) = (if k \<in> fst ` set d then map fst d else map fst d @ [k])"
  by (simp add: dict_set_def update_keys)

lemma distinct_dict_set: "distinct (map fst d) \<Longrightarrow> distinct (map fst (dict_set k v d))"
  by (simp add: dict_set_def distinct_update)

lemma distinct_writes: "distinct (map fst d) \<Longrightarrow> distinct (map fst (writes ws d))"
  by (induction ws arbitrary: d) (auto simp: distinct_dict_set)

lemma keys_writes_present:
  "fst ` set ws \<subseteq> fst ` set d \<Longrightarrow> map fst (writes ws d) = map fst d"
proof (induction ws arbitrary: d)
  case Nil
  then show ?case by simp
next
  case (Cons w ws)
  obtain k v where w: "w = (k, v)" by (cases w)
  from Cons.prems have k: "k \<in> fst ` set d" and rest: "fst ` set ws \<subseteq> fst ` set d"
    by (auto simp: w)
  have same: "map fst (dict_set k v d) = map fst d"
    using k by (simp add: keys_dict_set)
  then have "fst ` set (dict_set k v d) = fst ` set d"
    by (metis set_map)
  with rest have "map fst (writes ws (dict_set k v d)) = map fst (dict_set k v d)"
    by (intro Cons.IH) simp
  with same show ?case by (simp add: w)
qed

lemma keys_after_writes: "fst ` set ws \<subseteq> fst ` set (writes ws d)"
proof -
  have "dom (map_of (writes ws d)) = dom (map_of d) \<union> fst ` set ws"
    by (simp add: map_of_writes dom_map_of_conv_image_fst Un_commute)
  then show ?thesis
    by (simp add: dom_map_of_conv_image_fst)
qed

lemma alist_eqI:
  "distinct (map fst xs) \<Longrightarrow> map fst xs = map fst ys \<Longrightarrow> map_of xs = map_of ys \<Longrightarrow> xs = ys"
proof (induction xs arbitrary: ys)
  case Nil
  then show ?case by simp
next
  case (Cons x xs)
  then obtain y ys' where ys: "ys = y # ys'" by (cases ys) auto
  from Cons.prems ys have k: "fst x = fst y" and keys: "map fst xs = map fst ys'"
    by auto
  from Cons.prems(3) have "map_of (x # xs) (fst x) = map_of (y # ys') (fst x)"
    by (simp only: ys)
  with k have v: "snd x = snd y" by (cases x; cases y) simp
  from k v have xy: "x = y" by (simp add: prod_eq_iff)
  have fresh: "fst x \<notin> fst ` set xs" "fst x \<notin> fst ` set ys'"
    using Cons.prems(1) keys by (auto simp flip: set_map)
  have "map_of xs = map_of ys'"
  proof
    fix k'
    show "map_of xs k' = map_of ys' k'"
    proof (cases "k' = fst x")
      case True
      from fresh have "map_of xs (fst x) = None" "map_of ys' (fst x) = None"
        by (simp_all add: map_of_eq_None_iff)
      with True show ?thesis by simp
    next
      case False
      from Cons.prems(3) have "map_of (x # xs) k' = map_of (y # ys') k'"
        by (simp only: ys)
      with False k show ?thesis by (cases x; cases y) auto
    qed
  qed
  with Cons.IH [of ys'] Cons.prems(1) keys have "xs = ys'" by simp
  with xy ys show ?case by simp
qed

lemma writes_idem:
  assumes "distinct (map fst d)"
  shows "writes ws (writes ws d) = writes ws d"
proof (rule alist_eqI)
  show "distinct (map fst (writes ws (writes ws d)))"
    using assms by (intro distinct_writes)
  show "map fst (writes ws (writes ws d)) = map fst (writes ws d)"
    by (intro keys_writes_present keys_after_writes)
  show "map_of (writes ws (writes ws d)) = map_of (writes ws d)"
    by (simp add: map_of_writes fun_eq_iff map_add_def split: option.splits)
qed

lemma assignsI: "set ws \<subseteq> K \<Longrightarrow> (\<And>d. f d = writes ws d) \<Longrightarrow> assigns K f"
  unfolding assigns_def by blast

lemma assignsD: "assigns K f \<Longrightarrow> \<exists>ws. set ws \<subseteq> K \<and> (\<forall>d. f d = writes ws d)"
  unfolding assigns_def by assumption

lemma assigns_id: "assigns K (\<lambda>d. d)"
  by (rule assignsI [of "[]"]) simp_all

lemma assigns_dict_set: "(k, v) \<in> K \<Longrightarrow> assigns K (dict_set k v)"
  by (rule assignsI [of "[(k, v)]"]) simp_all

lemma assigns_comp:
  assumes "assigns K f" and "assigns K g"
  shows "assigns K (\<lambda>d. g (f d))"
proof -
  from assignsD [OF assms(1)] obtain ws where ws: "set ws \<subseteq> K" "\<And>d. f d = writes ws d"
    by auto
  from assignsD [OF assms(2)] obtain ws' where ws': "set ws' \<subseteq> K" "\<And>d. g d = writes ws' d"
    by auto
  show ?thesis
  proof (rule assignsI [of "ws @ ws'"])
    show "set (ws @ ws') \<subseteq> K" using ws(1) ws'(1) by simp
    show "g (f d) = writes (ws @ ws') d" for d
      by (simp only: ws(2) ws'(2) writes_append)
  qed
qed

lemma assigns_mono: "assigns K f \<Longrightarrow> K \<subseteq> K' \<Longrightarrow> assigns K' f"
  unfolding assigns_def by blast

lemma assigns_run_steps:
  "(\<And>f. f \<in> set steps \<Longrightarrow> assigns K f) \<Longrightarrow> assigns K (run_steps steps)"
proof (induction steps rule: rev_induct)
  case Nil
  show ?case using assigns_id [of K] by (simp add: run_steps_def)
next
  case (snoc s steps)
  have "assigns K (run_steps steps)" "assigns K s"
    using snoc by simp_all
  then have "assigns K (\<lambda>d. s (run_steps steps d))"
    by (rule assigns_comp)
  moreover have "run_steps (steps @ [s]) = (\<lambda>d. s (run_steps steps d))"
    by (simp add: run_steps_def fun_eq_iff)
  ultimately show ?case by simp
qed

lemma assigns_idem:
  assumes "assigns K f" and "distinct (map fst d)"
  shows "f (f d) = f d"
proof -
  from assignsD [OF assms(1)] obtain ws where ws: "\<And>d. f d = writes ws d"
    by auto
  show ?thesis
    by (simp only: ws writes_idem [OF assms(2)])
qed

lemma assigns_delta:
  assumes "assigns K f"
  shows "map_of (f d) = map_of d ++ map_of (f [])"
proof -
  from assignsD [OF assms] obtain ws where ws: "\<And>d. f d = writes ws d"
    by auto
  show ?thesis
    by (simp add: ws map_of_writes)
qed

lemma map_of_rev_in: "map_of (rev ws) k = Some v \<Longrightarrow> (k, v) \<in> set ws"
  by (drule map_of_SomeD) simp

lemma assigns_value:
  assumes "assigns K f" and "map_of (f d) k = Some v"
  shows "map_of d k = Some v \<or> (k, v) \<in> K"
proof -
  from assignsD [OF assms(1)] obtain ws where ws: "set ws \<subseteq> K" "\<And>d. f d = writes ws d"
    by auto
  from assms(2) have "(map_of d ++ map_of (rev ws)) k = Some v"
    by (simp add: ws(2) map_of_writes)
  then have "map_of d k = Some v \<or> map_of (rev ws) k = Some v"
    by (auto simp: map_add_def split: option.splits)
  with ws(1) show ?thesis
    by (auto dest: map_of_rev_in)
qed



lemma assigns_distinct:
  assumes "assigns K f" and "distinct (map fst d)"
  shows "distinct (map fst (f d))"
proof -
  from assignsD [OF assms(1)] obtain ws where ws: "\<And>d. f d = writes ws d"
    by auto
  show ?thesis
    by (simp only: ws distinct_writes [OF assms(2)])
qed


section \<open>The negation detector\<close>

lemma prev_after_Cons_Suc: "prev_after p (c # cs) (Suc j) = prev_after (Some c) cs j"
  by (cases j) (simp_all add: prev_after_def)

lemma prev_after_0 [simp]: "prev_after p s 0 = p"
  by (simp add: prev_after_def)

lemma search_from_None_iff:
  "search_from r p s i = None \<longleftrightarrow>
     (\<forall>k \<le> length s. rx_ends r (prev_after p s k) (drop k s) = [])"
proof (induction s arbitrary: p i)
  case Nil
  show ?case by (simp split: list.splits)
next
  case (Cons c cs)
  have "(\<forall>k \<le> length (c # cs). rx_ends r (prev_after p (c # cs) k) (drop k (c # cs)) = []) \<longleftrightarrow>
        rx_ends r p (c # cs) = [] \<and>
        (\<forall>j \<le> length cs. rx_ends r (prev_after (Some c) cs j) (drop j cs) = [])"
    (is "?all \<longleftrightarrow> ?head \<and> ?tail")
  proof
    assume a: ?all
    have ?head using a [rule_format, of 0] by simp
    moreover have ?tail
    proof (intro allI impI)
      fix j assume "j \<le> length cs"
      then show "rx_ends r (prev_after (Some c) cs j) (drop j cs) = []"
        using a [rule_format, of "Suc j"] by (simp add: prev_after_Cons_Suc)
    qed
    ultimately show "?head \<and> ?tail" ..
  next
    assume b: "?head \<and> ?tail"
    show ?all
    proof (intro allI impI)
      fix k assume k: "k \<le> length (c # cs)"
      show "rx_ends r (prev_after p (c # cs) k) (drop k (c # cs)) = []"
      proof (cases k)
        case 0
        with b show ?thesis by simp
      next
        case (Suc j)
        with k b show ?thesis by (simp add: prev_after_Cons_Suc)
      qed
    qed
  qed
  then show ?case
    by (simp add: Cons.IH split: list.splits)
qed

lemma word_pattern_ends:
  "rx_ends (Seq WordB (Seq (Lits toks) WordB)) p s \<noteq> [] \<longleftrightarrow>
     at_boundary p s \<and>
     (\<exists>tok \<in> set toks. prefix tok s \<and>
        at_boundary (prev_after p s (length tok)) (drop (length tok) s))"
  by (auto simp: concat_eq_Nil_conv)

lemma boundary_before_word:
  assumes "prefix tok s" and "tok \<noteq> []" and "is_word (hd tok)"
  shows "at_boundary p s \<longleftrightarrow> (case p of None \<Rightarrow> True | Some c \<Rightarrow> \<not> is_word c)"
proof -
  from assms(1,2) obtain c cs where "s = c # cs" and "c = hd tok"
    by (cases tok; cases s) (auto simp: prefix_def)
  with assms(3) show ?thesis
    by (simp add: at_boundary_def split: option.splits)
qed

lemma boundary_after_word:
  assumes "is_word c"
  shows "at_boundary (Some c) s \<longleftrightarrow> (s = [] \<or> \<not> is_word (hd s))"
  using assms by (cases s) (simp_all add: at_boundary_def)

lemma word_match_at:
  assumes k: "k \<le> length w" and tok: "tok \<noteq> []" "\<forall>c \<in> set tok. is_word c"
  shows "prefix tok (drop k w) \<and> at_boundary (prev_after None w k) (drop k w) \<and>
         at_boundary (prev_after (prev_after None w k) (drop k w) (length tok))
           (drop (length tok) (drop k w))
         \<longleftrightarrow> whole_word_at tok w k"
proof (cases "prefix tok (drop k w)")
  case False
  then have "take (length tok) (drop k w) \<noteq> tok"
    by (metis take_is_prefix)
  with False show ?thesis by (simp add: whole_word_at_def)
next
  case True
  then obtain rest where rest: "drop k w = tok @ rest"
    by (auto simp: prefix_def)
  have len: "k + length tok + length rest = length w"
    using arg_cong [OF rest, of length] k by simp
  have tk: "take (length tok) (drop k w) = tok"
    by (simp add: rest)
  have hd_word: "is_word (hd tok)" and last_word: "is_word (last tok)"
    using tok by simp_all
  have before: "at_boundary (prev_after None w k) (drop k w) \<longleftrightarrow> (k = 0 \<or> \<not> is_word (w ! (k - 1)))"
    by (simp add: boundary_before_word [OF True tok(1) hd_word] prev_after_def)
  have prev: "prev_after (prev_after None w k) (drop k w) (length tok) = Some (last tok)"
    using tok(1) by (simp add: prev_after_def rest nth_append last_conv_nth)
  have r: "drop (length tok) (drop k w) = rest"
    by (simp add: rest)
  have nth: "rest \<noteq> [] \<Longrightarrow> hd rest = w ! (k + length tok)"
  proof -
    assume "rest \<noteq> []"
    then have "hd rest = (tok @ rest) ! length tok"
      by (simp add: nth_append hd_conv_nth)
    also have "\<dots> = drop k w ! length tok" by (simp only: rest)
    also have "\<dots> = w ! (k + length tok)"
      using k by simp
    finally show ?thesis .
  qed
  have after: "at_boundary (Some (last tok)) rest \<longleftrightarrow>
      (k + length tok = length w \<or> \<not> is_word (w ! (k + length tok)))"
  proof (cases "rest = []")
    case True
    with len show ?thesis by (simp add: boundary_after_word [OF last_word])
  next
    case False
    with len have "k + length tok \<noteq> length w" by (cases rest) auto
    with False nth show ?thesis by (simp add: boundary_after_word [OF last_word])
  qed
  from len have fits: "k + length tok \<le> length w" by simp
  show ?thesis
    unfolding whole_word_at_def prev r
    using True before after fits tk by simp
qed

lemma occurs_whole_word_iff:
  "occurs_whole_word tok w \<longleftrightarrow> (\<exists>k \<le> length w. whole_word_at tok w k)"
  by (simp only: occurs_whole_word_def set_upt Bex_def atLeastLessThan_iff less_Suc_eq_le) auto

lemma negation_tokens_words:
  "\<forall>tok \<in> set negation_tokens. tok \<noteq> [] \<and> (\<forall>c \<in> set tok. is_word c)"
  by (simp add: negation_tokens_def is_word_def)

lemma re_search_word_pattern:
  assumes "\<forall>tok \<in> set toks. tok \<noteq> [] \<and> (\<forall>c \<in> set tok. is_word c)"
  shows "re_search (Seq WordB (Seq (Lits toks) WordB)) w \<noteq> None \<longleftrightarrow>
         (\<exists>tok \<in> set toks. occurs_whole_word tok w)"
proof -
  have "re_search (Seq WordB (Seq (Lits toks) WordB)) w \<noteq> None \<longleftrightarrow>
        (\<exists>k \<le> length w. rx_ends (Seq WordB (Seq (Lits toks) WordB)) (prev_after None w k) (drop k w) \<noteq> [])"
    by (simp only: re_search_def search_from_None_iff) blast
  also have "\<dots> \<longleftrightarrow> (\<exists>k \<le> length w. \<exists>tok \<in> set toks.
        prefix tok (drop k w) \<and> at_boundary (prev_after None w k) (drop k w) \<and>
        at_boundary (prev_after (prev_after None w k) (drop k w) (length tok))
          (drop (length tok) (drop k w)))"
    by (simp only: word_pattern_ends) blast
  also have "\<dots> \<longleftrightarrow> (\<exists>k \<le> length w. \<exists>tok \<in> set toks. whole_word_at tok w k)"
  proof -
    have "prefix tok (drop k w) \<and> at_boundary (prev_after None w k) (drop k w) \<and>
        at_boundary (prev_after (prev_after None w k) (drop k w) (length tok))
          (drop (length tok) (drop k w)) \<longleftrightarrow> whole_word_at tok w k"
      if "k \<le> length w" and "tok \<in> set toks" for k tok
      using that assms by (intro word_match_at) auto
    then show ?thesis by (intro ex_cong1 conj_cong bex_cong refl) simp_all
  qed
  also have "\<dots> \<longleftrightarrow> (\<exists>tok \<in> set toks. occurs_whole_word tok w)"
    by (simp only: occurs_whole_word_iff) blast
  finally show ?thesis .
qed

lemma window_eq:
  "index \<le> length text \<Longrightarrow> drop (index - 20) (take index text) = preceding_window text index"
  by (simp add: preceding_window_def Let_def min_absorb2)

text \<open>
  C6. For a text and a match position in it, the negation detector answers true exactly
  when one of the six tokens no, not, dont, without, denies, never occurs as a whole word
  in the window of the twenty characters that end just before the position. The window
  is shorter when fewer than twenty characters precede the position: it has
  \<open>min index 20\<close> characters and is followed in the text by the match position. The
  detector is a function of the text and the position alone and has a value for every
  input.
\<close>

theorem check_negation_whole_word:
  "index \<le> length text \<Longrightarrow>
     (check_negation text index \<longleftrightarrow>
        (\<exists>tok \<in> set negation_tokens. occurs_whole_word tok (preceding_window text index))) \<and>
     length (preceding_window text index) = min index 20 \<and>
     preceding_window text index @ drop index text = drop (index - 20) text"
proof (intro conjI)
  assume le: "index \<le> length text"
  show "check_negation text index \<longleftrightarrow>
        (\<exists>tok \<in> set negation_tokens. occurs_whole_word tok (preceding_window text index))"
    using re_search_word_pattern [OF negation_tokens_words]
    by (simp add: check_negation_def Let_def window_eq [OF le])
  show "length (preceding_window text index) = min index 20"
    using le by (simp add: preceding_window_def Let_def min_absorb2)
  have "drop (index - 20) text = drop (index - 20) (take index text @ drop index text)"
    by simp
  also have "\<dots> = drop (index - 20) (take index text) @ drop index text"
    using le by (simp only: drop_append) (simp add: min_absorb2)
  finally show "preceding_window text index @ drop index text = drop (index - 20) text"
    using le by (simp add: window_eq)
qed

theorem check_negation_whole_word_witness:
  "(3::nat) \<le> length ''no vomiting today'' \<and>
   check_negation ''no vomiting today'' 3 \<and>
   (\<exists>tok \<in> set negation_tokens. occurs_whole_word tok (preceding_window ''no vomiting today'' 3)) \<and>
   preceding_window ''no vomiting today'' 3 = ''no ''"
proof -
  have le: "(3::nat) \<le> length ''no vomiting today''" by simp
  have c: "check_negation ''no vomiting today'' 3" by code_simp
  have w: "preceding_window ''no vomiting today'' 3 = ''no ''" by code_simp
  from check_negation_whole_word [OF le] c le w show ?thesis by blast
qed


section \<open>The extraction rules as assignments\<close>

lemma assigns_extract_verbatim:
  "(\<And>v. (slot, v) \<in> K) \<Longrightarrow> assigns K (extract_verbatim pat slot t)"
  unfolding extract_verbatim_def
  by (cases "re_search pat t") (simp_all add: assigns_id assigns_dict_set)

lemma assigns_extract_slot:
  "(\<And>v. (slot, v) \<in> K) \<Longrightarrow> assigns K (extract_slot pat slot t)"
  unfolding extract_slot_def
  by (cases "re_search pat t") (simp_all add: assigns_id assigns_dict_set)

lemma assigns_extract_flagged:
  assumes "\<And>v. (slot, v) \<in> K" and "(''URGENCY_OVERRIDE'', level) \<in> K"
  shows "assigns K (extract_flagged pat slot red_flag level t)"
proof (cases "re_search pat t")
  case None
  then have "extract_flagged pat slot red_flag level t = (\<lambda>d. d)"
    by (simp add: extract_flagged_def fun_eq_iff)
  then show ?thesis by (simp add: assigns_id)
next
  case (Some m)
  define v where "v = (if check_negation t (fst m) then ''no '' else []) @ snd m"
  define fire where "fire \<longleftrightarrow> red_flag \<and> \<not> check_negation t (fst m)"
  have eq: "extract_flagged pat slot red_flag level t =
      (if fire then (\<lambda>d. dict_set ''URGENCY_OVERRIDE'' level (dict_set slot v d))
       else dict_set slot v)"
    by (simp add: extract_flagged_def Some Let_def fun_eq_iff v_def fire_def)
  have one: "assigns K (dict_set slot v)"
    using assms(1) by (rule assigns_dict_set)
  have "assigns K (dict_set ''URGENCY_OVERRIDE'' level)"
    using assms(2) by (rule assigns_dict_set)
  with one have two: "assigns K (\<lambda>d. dict_set ''URGENCY_OVERRIDE'' level (dict_set slot v d))"
    by (rule assigns_comp)
  show ?thesis
    using one two by (simp add: eq)
qed

lemma category_writes_slot:
  "slot \<noteq> ''URGENCY_OVERRIDE'' \<Longrightarrow> slot \<noteq> ''duration'' \<Longrightarrow> slot \<noteq> ''severity'' \<Longrightarrow>
   slot \<noteq> ''category_redirect'' \<Longrightarrow> (slot, v) \<in> category_writes"
  by (simp add: category_writes_def)

lemma category_writes_level: "(''URGENCY_OVERRIDE'', ''HIGH'') \<in> category_writes"
  "(''URGENCY_OVERRIDE'', ''CRITICAL'') \<in> category_writes"
  by (simp_all add: category_writes_def)

lemma category_writes_permitted: "category_writes \<subseteq> permitted asked"
  by (auto simp: category_writes_def permitted_def)

lemma permitted_slot: "slot \<noteq> ''URGENCY_OVERRIDE'' \<Longrightarrow> (slot, v) \<in> permitted asked"
  by (simp add: permitted_def)

lemma permitted_asked: "(slot, v) \<in> permitted (Some slot)"
  by (simp add: permitted_def)

lemmas rule_assigns =
  assigns_extract_slot [OF category_writes_slot] assigns_extract_flagged [OF category_writes_slot]

lemma assigns_steps_Nil: "assigns K (run_steps [])"
proof -
  have "run_steps [] = (\<lambda>d::('a \<times> 'b) list. d)"
    by (simp add: run_steps_def fun_eq_iff)
  then show ?thesis by (simp only: assigns_id)
qed

lemma assigns_steps_Cons:
  assumes "assigns K f" and "assigns K (run_steps fs)"
  shows "assigns K (run_steps (f # fs))"
proof -
  have "run_steps (f # fs) = (\<lambda>d. run_steps fs (f d))"
    by (simp add: run_steps_def fun_eq_iff)
  with assigns_comp [OF assms] show ?thesis by simp
qed

lemma assigns_gastrointestinal: "assigns category_writes (extract_gastrointestinal t)"
  unfolding extract_gastrointestinal_def
  by (intro assigns_steps_Cons assigns_steps_Nil rule_assigns category_writes_level) simp_all

lemma assigns_respiratory: "assigns category_writes (extract_respiratory t)"
  unfolding extract_respiratory_def
  by (intro assigns_steps_Cons assigns_steps_Nil rule_assigns category_writes_level) simp_all

lemma assigns_neurological: "assigns category_writes (extract_neurological t)"
  unfolding extract_neurological_def
  by (intro assigns_steps_Cons assigns_steps_Nil rule_assigns category_writes_level) simp_all

lemma assigns_orthopedic: "assigns category_writes (extract_orthopedic t)"
  unfolding extract_orthopedic_def
  by (intro assigns_steps_Cons assigns_steps_Nil rule_assigns category_writes_level) simp_all

lemma assigns_dermatological: "assigns category_writes (extract_dermatological t)"
  unfolding extract_dermatological_def
  by (intro assigns_steps_Cons assigns_steps_Nil rule_assigns category_writes_level) simp_all

lemma assigns_general_systemic: "assigns category_writes (extract_general_systemic t)"
  unfolding extract_general_systemic_def
  by (intro assigns_steps_Cons assigns_steps_Nil rule_assigns category_writes_level) simp_all

lemma assigns_extract_category: "assigns category_writes (extract_category c t)"
proof -
  have "extract_category c t =
     (if c = ''GASTROINTESTINAL'' then extract_gastrointestinal t
      else if c = ''RESPIRATORY'' then extract_respiratory t
      else if c = ''NEUROLOGICAL'' then extract_neurological t
      else if c = ''ORTHOPEDIC'' then extract_orthopedic t
      else if c = ''DERMATOLOGICAL'' then extract_dermatological t
      else if c = ''GENERAL_SYSTEMIC'' then extract_general_systemic t
      else (\<lambda>d. d))"
    by (simp add: extract_category_def fun_eq_iff)
  then show ?thesis
    by (simp add: assigns_gastrointestinal assigns_respiratory assigns_neurological
        assigns_orthopedic assigns_dermatological assigns_general_systemic assigns_id)
qed

lemma assigns_context_check: "assigns (permitted asked) (context_check asked ut t)"
proof (cases asked)
  case None
  then have "context_check asked ut t = (\<lambda>d. d)"
    by (simp add: context_check_def fun_eq_iff)
  then show ?thesis by (simp add: assigns_id)
next
  case (Some slot)
  have "context_check (Some slot) ut t =
     (if slot = [] then (\<lambda>d. d)
      else if re_search no_pattern t \<noteq> None then dict_set slot (negative_answer slot ut)
      else if re_search yes_pattern t \<noteq> None then dict_set slot ut
      else (\<lambda>d. d))"
    by (simp add: context_check_def negative_answer_def fun_eq_iff)
  then show ?thesis
    by (simp add: Some assigns_id assigns_dict_set permitted_asked)
qed


section \<open>One call of the secretary\<close>

lemma context_check_None [simp]: "context_check None ut t d = d"
  by (simp add: context_check_def)

lemma gnq_snd:
  "snd (get_next_question c sg ut cb asked r) =
     (case (if c = ''GENERAL_SYSTEMIC'' then redirect_check (lower ut) else None) of
        None \<Rightarrow> extract_all c ut asked cb
      | Some tg \<Rightarrow> dict_set ''category_redirect'' tg (extract_all c ut asked cb))"
  by (simp add: get_next_question_def Let_def split: option.splits)

lemma gnq_fst:
  "fst (get_next_question c sg ut cb asked r) =
     (case (if c = ''GENERAL_SYSTEMIC'' then redirect_check (lower ut) else None) of
        None \<Rightarrow> pick_question SPECIALIST_QUESTIONS c sg (extract_all c ut asked cb) r
      | Some tg \<Rightarrow> (None, Some ''redirect''))"
  by (simp add: get_next_question_def Let_def split: option.splits)

lemma extract_all_asked:
  "extract_all c ut asked cb = extract_all c ut None (context_check asked ut (lower ut) cb)"
  by (simp add: extract_all_def Let_def)

lemma gnq_asked:
  "snd (get_next_question c sg ut cb asked r) =
     snd (get_next_question c sg ut (context_check asked ut (lower ut) cb) None r)"
  by (simp only: gnq_snd extract_all_asked [of c ut asked cb])

lemma assigns_extract_all_None:
  "assigns (category_writes \<union> {''duration'', ''severity''} \<times> UNIV) (extract_all c ut None)"
proof -
  let ?K = "category_writes \<union> {''duration'', ''severity''} \<times> UNIV"
  have d: "assigns ?K (extract_verbatim duration_pattern ''duration'' (lower ut))"
    by (rule assigns_extract_verbatim) simp
  have s: "assigns ?K (extract_verbatim SEVERITY_PATTERN ''severity'' (lower ut))"
    by (rule assigns_extract_verbatim) simp
  have c: "assigns ?K (extract_category c (lower ut))"
    by (rule assigns_mono [OF assigns_extract_category]) simp
  have "extract_all c ut None =
      (\<lambda>d. extract_category c (lower ut)
             (extract_verbatim SEVERITY_PATTERN ''severity'' (lower ut)
               (extract_verbatim duration_pattern ''duration'' (lower ut) d)))"
    by (simp add: extract_all_def Let_def fun_eq_iff)
  moreover have "assigns ?K \<dots>"
    by (rule assigns_comp [OF assigns_comp [OF d s] c])
  ultimately show ?thesis by simp
qed

lemma assigns_gnq_None:
  "assigns (category_writes \<union> {''duration'', ''severity'', ''category_redirect''} \<times> UNIV)
     (\<lambda>cb. snd (get_next_question c sg ut cb None r))"
proof -
  let ?K = "category_writes \<union> {''duration'', ''severity'', ''category_redirect''} \<times> UNIV"
  have e: "assigns ?K (extract_all c ut None)"
    by (rule assigns_mono [OF assigns_extract_all_None]) auto
  show ?thesis
  proof (cases "if c = ''GENERAL_SYSTEMIC'' then redirect_check (lower ut) else None")
    case None
    then have "(\<lambda>cb. snd (get_next_question c sg ut cb None r)) = extract_all c ut None"
      by (simp add: gnq_snd fun_eq_iff)
    with e show ?thesis by simp
  next
    case (Some tg)
    then have "(\<lambda>cb. snd (get_next_question c sg ut cb None r)) =
        (\<lambda>cb. dict_set ''category_redirect'' tg (extract_all c ut None cb))"
      by (simp add: gnq_snd fun_eq_iff)
    moreover have "assigns ?K (dict_set ''category_redirect'' tg)"
      by (rule assigns_dict_set) simp
    ultimately show ?thesis
      using assigns_comp [OF e] by simp
  qed
qed

lemma general_writes_permitted:
  "category_writes \<union> {''duration'', ''severity'', ''category_redirect''} \<times> UNIV \<subseteq> permitted asked"
  by (auto simp: category_writes_def permitted_def)

lemma assigns_gnq: "assigns (permitted asked) (\<lambda>cb. snd (get_next_question c sg ut cb asked r))"
proof -
  have "assigns (permitted asked) (\<lambda>cb. snd (get_next_question c sg ut cb None r))"
    by (rule assigns_mono [OF assigns_gnq_None general_writes_permitted])
  from assigns_comp [OF assigns_context_check this, of ut "lower ut"]
  show ?thesis by (simp only: gnq_asked [of c sg ut _ asked r])
qed

lemma first_missing_slot: "snd (first_missing slots cb r) = snd (first_missing slots cb r')"
  by (induction slots) auto

lemma pick_question_slot: "snd (pick_question bank c sg cb r) = snd (pick_question bank c sg cb r')"
  by (simp add: pick_question_def Let_def first_missing_slot [of _ cb r r'])

text \<open>
  C7. Running \<^verbatim>\<open>get_next_question\<close> a second time on the same utterance, with the same
  category, sub-group and asked slot, against the clipboard that the first run produced
  gives the clipboard of the first run again, and the same slot outcome (in particular
  the same redirect or no-redirect signal), whatever the random draws. The clipboard is
  a dictionary: its keys are distinct.
\<close>

theorem extraction_idempotent:
  "distinct (map fst cb) \<Longrightarrow>
     snd (get_next_question c sg ut (snd (get_next_question c sg ut cb asked r)) asked r') =
       snd (get_next_question c sg ut cb asked r) \<and>
     snd (fst (get_next_question c sg ut (snd (get_next_question c sg ut cb asked r)) asked r')) =
       snd (fst (get_next_question c sg ut cb asked r))"
proof -
  assume dist: "distinct (map fst cb)"
  let ?f = "\<lambda>cb. snd (get_next_question c sg ut cb asked r)"
  let ?e = "extract_all c ut asked"
  have same_r: "snd (get_next_question c sg ut d asked r') = ?f d" for d
    by (simp only: gnq_snd)
  have idem: "?f (?f cb) = ?f cb"
    using assigns_gnq dist by (rule assigns_idem)
  have first: "snd (get_next_question c sg ut (?f cb) asked r') = ?f cb"
    by (simp only: same_r idem)
  have "snd (fst (get_next_question c sg ut (?f cb) asked r')) =
        snd (fst (get_next_question c sg ut cb asked r))"
  proof (cases "if c = ''GENERAL_SYSTEMIC'' then redirect_check (lower ut) else None")
    case (Some tg)
    then show ?thesis by (simp add: gnq_fst)
  next
    case None
    then have f: "?f d = ?e d" for d
      by (simp add: gnq_snd)
    from idem have "?e (?e cb) = ?e cb"
      by (simp only: f)
    with None show ?thesis
      by (simp add: gnq_fst f pick_question_slot [of _ _ _ _ r' r])
  qed
  with first show ?thesis by simp
qed

theorem extraction_idempotent_witness:
  "distinct (map fst [(''duration'', ''3 days'')]) \<and>
   snd (get_next_question ''NEUROLOGICAL'' ''HEADACHE'' ''not too bad''
          [(''duration'', ''3 days'')] (Some ''severity'') 0) =
     [(''duration'', ''3 days''), (''severity'', ''bad'')] \<and>
   snd (get_next_question ''NEUROLOGICAL'' ''HEADACHE'' ''not too bad''
          [(''duration'', ''3 days''), (''severity'', ''bad'')] (Some ''severity'') 1) =
     [(''duration'', ''3 days''), (''severity'', ''bad'')]"
proof -
  have d: "distinct (map fst [(''duration'', ''3 days'')])" by simp
  have v: "snd (get_next_question ''NEUROLOGICAL'' ''HEADACHE'' ''not too bad''
          [(''duration'', ''3 days'')] (Some ''severity'') 0) =
     [(''duration'', ''3 days''), (''severity'', ''bad'')]"
    by code_simp
  from extraction_idempotent [OF d, of "''NEUROLOGICAL''" "''HEADACHE''" "''not too bad''"
      "Some ''severity''" 0 1] d v
  show ?thesis by simp
qed


section \<open>The yes/no handler\<close>

lemma context_check_asked:
  "slot \<noteq> [] \<Longrightarrow>
   map_of (context_check (Some slot) ut t cb) slot =
     (if re_search no_pattern t \<noteq> None then Some (negative_answer slot ut)
      else if re_search yes_pattern t \<noteq> None then Some ut
      else map_of cb slot)"
  by (simp add: context_check_def negative_answer_def map_of_dict_set)

text \<open>
  C8, as the specification states it, fails: after the question about severity, the
  negative utterance "not too bad" does not leave the canned value "mild symptoms" in
  the clipboard. The handler writes it, and the severity rule, which runs on every
  utterance, replaces it by its own match.
\<close>

theorem context_resolution_counterexample:
  "re_search no_pattern (lower ''not too bad'') \<noteq> None \<and>
   dict_get (snd (get_next_question ''NEUROLOGICAL'' ''HEADACHE'' ''not too bad'' []
                    (Some ''severity'') 0)) ''severity'' = Some ''bad''"
  by code_simp

text \<open>
  C8, amended. When a slot was asked last turn, the yes/no handler writes under it: for an
  utterance that contains no, nah, not or nope as a whole word, the canned value of the
  slots severity, triggers, sensation and spread ("mild symptoms", "no known triggers",
  "no pain or burning", "no spread") and the literal utterance for any other slot; for
  an utterance without such a word that contains yes, yeah, yep or sure, the literal
  utterance. The extraction rules still run on the same utterance afterwards. At the end
  of the call the asked slot holds what the rules extract for it from this utterance, if
  they extract anything for it, and otherwise what the handler wrote (or, when the
  utterance is neither a negation nor an affirmation, what the clipboard held before).
\<close>

theorem context_resolution:
  "slot \<noteq> [] \<Longrightarrow>
   dict_get (snd (get_next_question c sg ut cb (Some slot) r)) slot =
     (case dict_get (snd (get_next_question c sg ut [] None r)) slot of
        Some v \<Rightarrow> Some v
      | None \<Rightarrow>
          if re_search no_pattern (lower ut) \<noteq> None then Some (negative_answer slot ut)
          else if re_search yes_pattern (lower ut) \<noteq> None then Some ut
          else dict_get cb slot)"
proof -
  assume slot: "slot \<noteq> []"
  let ?f = "\<lambda>d. snd (get_next_question c sg ut d None r)"
  have "map_of (?f (context_check (Some slot) ut (lower ut) cb)) =
        map_of (context_check (Some slot) ut (lower ut) cb) ++ map_of (?f [])"
    using assigns_gnq_None by (rule assigns_delta)
  then have "map_of (snd (get_next_question c sg ut cb (Some slot) r)) slot =
      (map_of (context_check (Some slot) ut (lower ut) cb) ++ map_of (?f [])) slot"
    by (simp only: gnq_asked [of c sg ut cb "Some slot" r])
  then show ?thesis
    by (simp add: dict_get_def map_add_def context_check_asked [OF slot] split: option.splits)
qed

theorem context_resolution_witness:
  "''swallowing'' \<noteq> [] \<and>
   re_search no_pattern (lower ''no, it doesn't hurt when I swallow'') \<noteq> None \<and>
   dict_get (snd (get_next_question ''GASTROINTESTINAL'' ''ESOPHAGUS''
                    ''no, it doesn't hurt when I swallow'' [] (Some ''swallowing'') 0)) ''swallowing''
     = Some ''no, it doesn't hurt when I swallow''"
proof -
  have s: "''swallowing'' \<noteq> []" by simp
  have n: "re_search no_pattern (lower ''no, it doesn't hurt when I swallow'') \<noteq> None"
    by code_simp
  have e: "dict_get (snd (get_next_question ''GASTROINTESTINAL'' ''ESOPHAGUS''
                    ''no, it doesn't hurt when I swallow'' [] None 0)) ''swallowing'' = None"
    by code_simp
  have a: "negative_answer ''swallowing'' ''no, it doesn't hurt when I swallow'' =
      ''no, it doesn't hurt when I swallow''"
    by (simp add: negative_answer_def)
  from context_resolution [OF s, of "''GASTROINTESTINAL''" "''ESOPHAGUS''"
      "''no, it doesn't hurt when I swallow''" "[]" 0] n e a
  show ?thesis by simp
qed


section \<open>Red flags within one call\<close>

lemma urgency_extract_slot:
  "slot \<noteq> ''URGENCY_OVERRIDE'' \<Longrightarrow>
   map_of (extract_slot pat slot t d) ''URGENCY_OVERRIDE'' = map_of d ''URGENCY_OVERRIDE''"
  by (simp add: extract_slot_def map_of_dict_set split: option.splits)

lemma urgency_extract_verbatim:
  "slot \<noteq> ''URGENCY_OVERRIDE'' \<Longrightarrow>
   map_of (extract_verbatim pat slot t d) ''URGENCY_OVERRIDE'' = map_of d ''URGENCY_OVERRIDE''"
  by (simp add: extract_verbatim_def map_of_dict_set split: option.splits)

lemma urgency_extract_flagged:
  "slot \<noteq> ''URGENCY_OVERRIDE'' \<Longrightarrow>
   map_of (extract_flagged pat slot red_flag level t d) ''URGENCY_OVERRIDE'' =
     (if fires pat red_flag t then Some level else map_of d ''URGENCY_OVERRIDE'')"
  by (simp add: extract_flagged_def fires_def Let_def map_of_dict_set split: option.splits)

lemma urgency_dermatological:
  "map_of (extract_dermatological t d) ''URGENCY_OVERRIDE'' =
     (if fires anaphylaxis_words True t then Some ''CRITICAL''
      else if fires infection_words (re_search red_streak_words t \<noteq> None) t then Some ''HIGH''
      else if fires bleeding_words (re_search hemorrhage_words t \<noteq> None) t then Some ''CRITICAL''
      else map_of d ''URGENCY_OVERRIDE'')"
  by (simp add: extract_dermatological_def run_steps_def urgency_extract_slot
      urgency_extract_flagged)

lemma urgency_general_systemic:
  "map_of (extract_general_systemic t d) ''URGENCY_OVERRIDE'' =
     (if fires bleeding_check_words (contains t ''bleed'') t then Some ''HIGH''
      else if fires urine_output_words (re_search heatstroke_words t \<noteq> None) t then Some ''CRITICAL''
      else map_of d ''URGENCY_OVERRIDE'')"
  by (simp add: extract_general_systemic_def run_steps_def urgency_extract_slot
      urgency_extract_flagged)

lemma urgency_gnq:
  "dict_get (snd (get_next_question c sg ut cb asked r)) ''URGENCY_OVERRIDE'' =
     map_of (extract_all c ut asked cb) ''URGENCY_OVERRIDE''"
  by (simp add: gnq_snd dict_get_def map_of_dict_set split: option.splits)

text \<open>
  C4. Within one call of \<^verbatim>\<open>get_next_question\<close> the red flag that fires last in the
  order of the category's rules decides \<^verbatim>\<open>URGENCY_OVERRIDE\<close>. In DERMATOLOGICAL, when the
  gushing-bleeding flag (CRITICAL) and the red-streak flag (HIGH) both fire and the
  bite-systemic flag does not, the call ends with HIGH; when the bite-systemic flag
  fires, it ends with CRITICAL. In GENERAL\_SYSTEMIC, when the heatstroke flag (CRITICAL)
  and the bleeding flag (HIGH) both fire, the call ends with HIGH.
\<close>

theorem last_red_flag_wins:
  "(fires bleeding_words (re_search hemorrhage_words (lower ut) \<noteq> None) (lower ut) \<and>
    fires infection_words (re_search red_streak_words (lower ut) \<noteq> None) (lower ut) \<and>
    \<not> fires anaphylaxis_words True (lower ut)
      \<longrightarrow> dict_get (snd (get_next_question ''DERMATOLOGICAL'' sg ut cb asked r)) ''URGENCY_OVERRIDE''
            = Some ''HIGH'') \<and>
   (fires anaphylaxis_words True (lower ut)
      \<longrightarrow> dict_get (snd (get_next_question ''DERMATOLOGICAL'' sg ut cb asked r)) ''URGENCY_OVERRIDE''
            = Some ''CRITICAL'') \<and>
   (fires urine_output_words (re_search heatstroke_words (lower ut) \<noteq> None) (lower ut) \<and>
    fires bleeding_check_words (contains (lower ut) ''bleed'') (lower ut)
      \<longrightarrow> dict_get (snd (get_next_question ''GENERAL_SYSTEMIC'' sg ut cb asked r)) ''URGENCY_OVERRIDE''
            = Some ''HIGH'')"
  by (simp add: urgency_gnq extract_all_def Let_def extract_category_def
      urgency_dermatological urgency_general_systemic)

theorem last_red_flag_wins_witness:
  "fires bleeding_words
     (re_search hemorrhage_words (lower ''it is gushing and there is a red streak'') \<noteq> None)
     (lower ''it is gushing and there is a red streak'') \<and>
   fires infection_words
     (re_search red_streak_words (lower ''it is gushing and there is a red streak'') \<noteq> None)
     (lower ''it is gushing and there is a red streak'') \<and>
   \<not> fires anaphylaxis_words True (lower ''it is gushing and there is a red streak'') \<and>
   dict_get (snd (get_next_question ''DERMATOLOGICAL'' ''TRAUMA_BURN''
                    ''it is gushing and there is a red streak'' [] None 0)) ''URGENCY_OVERRIDE''
     = Some ''HIGH'' \<and>
   fires anaphylaxis_words True (lower ''the bite made my throat swell'') \<and>
   dict_get (snd (get_next_question ''DERMATOLOGICAL'' ''BITES''
                    ''the bite made my throat swell'' [] None 0)) ''URGENCY_OVERRIDE''
     = Some ''CRITICAL'' \<and>
   fires urine_output_words
     (re_search heatstroke_words (lower ''dark urine, confused, gums bleed'') \<noteq> None)
     (lower ''dark urine, confused, gums bleed'') \<and>
   fires bleeding_check_words (contains (lower ''dark urine, confused, gums bleed'') ''bleed'')
     (lower ''dark urine, confused, gums bleed'') \<and>
   dict_get (snd (get_next_question ''GENERAL_SYSTEMIC'' ''DEFAULT''
                    ''dark urine, confused, gums bleed'' [] None 0)) ''URGENCY_OVERRIDE''
     = Some ''HIGH''"
proof -
  have d: "fires bleeding_words
     (re_search hemorrhage_words (lower ''it is gushing and there is a red streak'') \<noteq> None)
     (lower ''it is gushing and there is a red streak'')"
    "fires infection_words
     (re_search red_streak_words (lower ''it is gushing and there is a red streak'') \<noteq> None)
     (lower ''it is gushing and there is a red streak'')"
    "\<not> fires anaphylaxis_words True (lower ''it is gushing and there is a red streak'')"
    by code_simp+
  have b: "fires anaphylaxis_words True (lower ''the bite made my throat swell'')"
    by code_simp
  have g: "fires urine_output_words
     (re_search heatstroke_words (lower ''dark urine, confused, gums bleed'') \<noteq> None)
     (lower ''dark urine, confused, gums bleed'')"
    "fires bleeding_check_words (contains (lower ''dark urine, confused, gums bleed'') ''bleed'')
     (lower ''dark urine, confused, gums bleed'')"
    by code_simp+
  from last_red_flag_wins [of "''it is gushing and there is a red streak''" "''TRAUMA_BURN''" "[]" None 0]
    last_red_flag_wins [of "''the bite made my throat swell''" "''BITES''" "[]" None 0]
    last_red_flag_wins [of "''dark urine, confused, gums bleed''" "''DEFAULT''" "[]" None 0] d b g
  show ?thesis by blast
qed


section \<open>One turn of the logic engine\<close>

lemma no_redirect_slot: "''redirect'' \<notin> set (bank_slots SPECIALIST_QUESTIONS)"
  by code_simp

lemma first_missing_in: "snd (first_missing slots cb r) = Some s \<Longrightarrow> s \<in> fst ` set slots"
  by (induction slots) (auto split: if_splits)

lemma dict_get_or_in: "dict_get_or d k [] = v \<Longrightarrow> v = [] \<or> (k, v) \<in> set d"
  by (auto simp: dict_get_or_def split: option.splits dest: map_of_SomeD)

lemma pick_in_bank:
  assumes "snd (pick_question bank c sg cb r) = Some s"
  shows "s \<in> set (bank_slots bank)"
proof -
  define groups where "groups = dict_get_or bank c []"
  define slots where "slots = dict_get_or groups sg []"
  from assms have "s \<in> fst ` set slots"
    by (simp add: pick_question_def Let_def slots_def groups_def first_missing_in)
  then have ne: "slots \<noteq> []" by auto
  with dict_get_or_in [of groups sg slots] have g: "(sg, slots) \<in> set groups"
    by (simp add: slots_def)
  then have "groups \<noteq> []" by auto
  with dict_get_or_in [of bank c groups] have "(c, groups) \<in> set bank"
    by (simp add: groups_def)
  with g \<open>s \<in> fst ` set slots\<close> show ?thesis
    by (force simp: bank_slots_def)
qed

lemma gnq_redirect_iff:
  "snd (fst (get_next_question c sg ut cb asked r)) = Some ''redirect'' \<longleftrightarrow>
     c = ''GENERAL_SYSTEMIC'' \<and> redirect_check (lower ut) \<noteq> None"
proof (cases "if c = ''GENERAL_SYSTEMIC'' then redirect_check (lower ut) else None")
  case None
  have "snd (pick_question SPECIALIST_QUESTIONS c sg (extract_all c ut asked cb) r) \<noteq> Some ''redirect''"
    using pick_in_bank no_redirect_slot by blast
  with None show ?thesis
    by (auto simp: gnq_fst split: if_splits)
next
  case (Some tg)
  then show ?thesis
    by (auto simp: gnq_fst split: if_splits)
qed

lemma gnq_redirect_stamp:
  "redirect_check (lower ut) = Some tg \<Longrightarrow>
   dict_get (snd (get_next_question ''GENERAL_SYSTEMIC'' sg ut cb asked r)) ''category_redirect'' = Some tg"
  by (simp add: gnq_snd dict_get_def map_of_dict_set)

lemma engine_plain:
  assumes "\<not> (category s = ''GENERAL_SYSTEMIC'' \<and> redirect_check (lower txt) \<noteq> None)"
  shows "run_logic_engine r s txt =
     (let routed = (subgroup s = ''DEFAULT'' \<and> get_best_subgroup txt (category s) \<noteq> ''DEFAULT'');
          sub = (if routed then get_best_subgroup txt (category s) else subgroup s);
          cb1 = (if routed then snd (get_next_question (category s) sub txt (clipboard s) None r)
                 else clipboard s)
      in Inr (fst (get_next_question (category s) sub txt cb1 (last_slot s) r),
              s\<lparr>clipboard := snd (get_next_question (category s) sub txt cb1 (last_slot s) r),
                subgroup := sub\<rparr>))"
proof -
  have plain: "(snd (fst (get_next_question (category s) sg txt cb asked r)) = Some ''redirect'') = False"
    for sg cb asked
    using assms by (simp add: gnq_redirect_iff)
  show ?thesis
    by (simp add: run_logic_engine_def Let_def case_prod_beta plain)
qed

lemma engine_redirect:
  assumes "category s = ''GENERAL_SYSTEMIC''" and "redirect_check (lower txt) = Some tg"
  shows "run_logic_engine r s txt =
     (let routed = (subgroup s = ''DEFAULT'' \<and> get_best_subgroup txt (category s) \<noteq> ''DEFAULT'');
          sub = (if routed then get_best_subgroup txt (category s) else subgroup s);
          cb1 = (if routed then snd (get_next_question (category s) sub txt (clipboard s) None r)
                 else clipboard s);
          cb2 = snd (get_next_question (category s) sub txt cb1 (last_slot s) r);
          nsub = get_best_subgroup txt tg;
          cb3 = snd (get_next_question tg nsub txt cb2 None r)
      in Inr (fst (get_next_question tg nsub [] cb3 None r),
              s\<lparr>clipboard := snd (get_next_question tg nsub [] cb3 None r),
                subgroup := nsub, category := tg\<rparr>))"
proof -
  have redirected:
    "(snd (fst (get_next_question ''GENERAL_SYSTEMIC'' sg txt cb asked r)) = Some ''redirect'') = True"
    for sg cb asked
    using assms(2) by (simp add: gnq_redirect_iff)
  show ?thesis
    using assms
    by (simp add: run_logic_engine_def Let_def case_prod_beta redirected gnq_redirect_stamp)
qed


lemma assigns_gnq_None_permitted:
  "assigns (permitted asked) (\<lambda>cb. snd (get_next_question c sg ut cb None r))"
  by (rule assigns_mono [OF assigns_gnq_None general_writes_permitted])

lemma assigns_if: "assigns K f \<Longrightarrow> assigns K (\<lambda>d. if b then f d else d)"
  by (cases b) (simp_all add: assigns_id)

text \<open>
  The clipboard a turn leaves is a fixed sequence of assignments applied to the clipboard
  it starts from; the sequence, the sub-group and the category after the turn do not
  depend on the clipboard.
\<close>

lemma assigns_engine:
  "\<exists>f sub cat.
     assigns (permitted (last_slot s)) f \<and>
     (\<forall>cb. \<exists>answer. run_logic_engine r (s\<lparr>clipboard := cb\<rparr>) txt =
              Inr (answer, s\<lparr>clipboard := f cb, subgroup := sub, category := cat\<rparr>)) \<and>
     (category s = ''GENERAL_SYSTEMIC'' \<and> redirect_check (lower txt) \<noteq> None
        \<longrightarrow> redirect_check (lower txt) = Some cat) \<and>
     (\<not> (category s = ''GENERAL_SYSTEMIC'' \<and> redirect_check (lower txt) \<noteq> None)
        \<longrightarrow> cat = category s)"
proof -
  define routed where
    "routed \<longleftrightarrow> subgroup s = ''DEFAULT'' \<and> get_best_subgroup txt (category s) \<noteq> ''DEFAULT''"
  define sub where "sub = (if routed then get_best_subgroup txt (category s) else subgroup s)"
  define g1 where
    "g1 = (\<lambda>d. if routed then snd (get_next_question (category s) sub txt d None r) else d)"
  define g2 where "g2 = (\<lambda>d. snd (get_next_question (category s) sub txt d (last_slot s) r))"
  have a1: "assigns (permitted (last_slot s)) g1"
    unfolding g1_def by (rule assigns_if [OF assigns_gnq_None_permitted])
  have a2: "assigns (permitted (last_slot s)) g2"
    unfolding g2_def by (rule assigns_gnq)
  have a12: "assigns (permitted (last_slot s)) (\<lambda>d. g2 (g1 d))"
    using a1 a2 by (rule assigns_comp)
  show ?thesis
  proof (cases "category s = ''GENERAL_SYSTEMIC'' \<and> redirect_check (lower txt) \<noteq> None")
    case False
    then have plain: "\<not> (category (s\<lparr>clipboard := cb\<rparr>) = ''GENERAL_SYSTEMIC'' \<and>
        redirect_check (lower txt) \<noteq> None)" for cb
      by simp
    have "\<exists>answer. run_logic_engine r (s\<lparr>clipboard := cb\<rparr>) txt =
        Inr (answer, s\<lparr>clipboard := g2 (g1 cb), subgroup := sub, category := category s\<rparr>)" for cb
      by (simp add: engine_plain [OF plain] Let_def g1_def g2_def sub_def routed_def)
    with a12 False show ?thesis by blast
  next
    case True
    then obtain tg where cat: "category s = ''GENERAL_SYSTEMIC''"
      and tg: "redirect_check (lower txt) = Some tg"
      by auto
    define nsub where "nsub = get_best_subgroup txt tg"
    define g3 where "g3 = (\<lambda>d. snd (get_next_question tg nsub txt d None r))"
    define g4 where "g4 = (\<lambda>d. snd (get_next_question tg nsub [] d None r))"
    have a3: "assigns (permitted (last_slot s)) g3"
      unfolding g3_def by (rule assigns_gnq_None_permitted)
    have a4: "assigns (permitted (last_slot s)) g4"
      unfolding g4_def by (rule assigns_gnq_None_permitted)
    have a123: "assigns (permitted (last_slot s)) (\<lambda>d. g3 (g2 (g1 d)))"
      using a12 a3 by (rule assigns_comp)
    have a: "assigns (permitted (last_slot s)) (\<lambda>d. g4 (g3 (g2 (g1 d))))"
      using a123 a4 by (rule assigns_comp)
    have c: "category (s\<lparr>clipboard := cb\<rparr>) = ''GENERAL_SYSTEMIC''" for cb
      using cat by simp
    have "\<exists>answer. run_logic_engine r (s\<lparr>clipboard := cb\<rparr>) txt =
        Inr (answer, s\<lparr>clipboard := g4 (g3 (g2 (g1 cb))), subgroup := nsub, category := tg\<rparr>)" for cb
      by (simp add: engine_redirect [OF c tg] Let_def g1_def g2_def g3_def g4_def sub_def
          routed_def nsub_def)
    with a tg True show ?thesis by blast
  qed
qed

lemma engine_delta:
  "\<exists>answer s'. run_logic_engine r s txt = Inr (answer, s') \<and>
     map_of (clipboard s') = map_of (clipboard s) ++ map_of (turn_extraction r s txt) \<and>
     (\<forall>k v. map_of (turn_extraction r s txt) k = Some v \<longrightarrow> (k, v) \<in> permitted (last_slot s)) \<and>
     (category s = ''GENERAL_SYSTEMIC'' \<and> redirect_check (lower txt) \<noteq> None
        \<longrightarrow> redirect_check (lower txt) = Some (category s')) \<and>
     (\<not> (category s = ''GENERAL_SYSTEMIC'' \<and> redirect_check (lower txt) \<noteq> None)
        \<longrightarrow> category s' = category s)"
proof -
  from assigns_engine [of s r "txt"] obtain f sub cat where
    f: "assigns (permitted (last_slot s)) f"
    and run: "\<And>cb. \<exists>answer. run_logic_engine r (s\<lparr>clipboard := cb\<rparr>) txt =
              Inr (answer, s\<lparr>clipboard := f cb, subgroup := sub, category := cat\<rparr>)"
    and c1: "category s = ''GENERAL_SYSTEMIC'' \<and> redirect_check (lower txt) \<noteq> None
        \<longrightarrow> redirect_check (lower txt) = Some cat"
    and c2: "\<not> (category s = ''GENERAL_SYSTEMIC'' \<and> redirect_check (lower txt) \<noteq> None)
        \<longrightarrow> cat = category s"
    by blast
  from run [of "clipboard s"] obtain answer where
    here: "run_logic_engine r s txt =
      Inr (answer, s\<lparr>clipboard := f (clipboard s), subgroup := sub, category := cat\<rparr>)"
    by auto
  from run [of "[]"] have empty: "turn_extraction r s txt = f []"
    by (auto simp: turn_extraction_def)
  have delta: "map_of (f (clipboard s)) = map_of (clipboard s) ++ map_of (f [])"
    using f by (rule assigns_delta)
  have vals: "(k, v) \<in> permitted (last_slot s)" if "map_of (f []) k = Some v" for k v
    using assigns_value [OF f that] by simp
  show ?thesis
    using here delta vals c1 c2 by (simp add: empty)
qed


section \<open>Urgency and facts across turns\<close>




text \<open>
  C3, as the specification states it, fails. The first turn of a new session with
  "my skin cut is gushing blood" leaves the session with \<^verbatim>\<open>URGENCY_OVERRIDE\<close> =
  CRITICAL; the next utterance of the same user, "there is a red streak", leaves it with
  HIGH.
\<close>

theorem urgency_downgrade_counterexample:
  "active_sessions
     (snd (predict_disease no_faults 0 empty_server 7 ''my skin cut is gushing blood'')) 7 =
     Some \<lparr>clipboard = [(''bleeding'', ''gush''), (''URGENCY_OVERRIDE'', ''CRITICAL'')],
           subgroup = ''TRAUMA_BURN'', last_slot = Some ''depth'', category = ''DERMATOLOGICAL'',
           status = ''ACTIVE''\<rparr> \<and>
   active_sessions
     (snd (predict_disease no_faults 0
             (snd (predict_disease no_faults 0 empty_server 7 ''my skin cut is gushing blood''))
             7 ''there is a red streak'')) 7 =
     Some \<lparr>clipboard = [(''bleeding'', ''gush''), (''URGENCY_OVERRIDE'', ''HIGH''),
                         (''infection_signs'', ''streak'')],
           subgroup = ''TRAUMA_BURN'', last_slot = Some ''depth'', category = ''DERMATOLOGICAL'',
           status = ''ACTIVE''\<rparr>"
  by code_simp

text \<open>
  C3, amended. Once \<^verbatim>\<open>URGENCY_OVERRIDE\<close> is set, no later turn clears it: every turn of
  the logic engine returns, and the key is still set afterwards. It keeps its level when
  the turn's extraction assigns none; otherwise it takes the level the turn's extraction
  assigns, HIGH or CRITICAL, which may be lower than the level before the turn. (The slot
  asked before the turn is a slot of the question bank, not \<^verbatim>\<open>URGENCY_OVERRIDE\<close>.)
\<close>

theorem urgency_never_cleared:
  "dict_get (clipboard s) ''URGENCY_OVERRIDE'' = Some level \<Longrightarrow>
   last_slot s \<noteq> Some ''URGENCY_OVERRIDE'' \<Longrightarrow>
   \<exists>answer s'. run_logic_engine r s utterance = Inr (answer, s') \<and>
     (dict_get (turn_extraction r s utterance) ''URGENCY_OVERRIDE'' = None \<and>
      dict_get (clipboard s') ''URGENCY_OVERRIDE'' = Some level \<or>
      dict_get (clipboard s') ''URGENCY_OVERRIDE'' =
        dict_get (turn_extraction r s utterance) ''URGENCY_OVERRIDE'' \<and>
      (dict_get (clipboard s') ''URGENCY_OVERRIDE'' = Some ''HIGH'' \<or>
       dict_get (clipboard s') ''URGENCY_OVERRIDE'' = Some ''CRITICAL''))"
proof -
  assume level: "dict_get (clipboard s) ''URGENCY_OVERRIDE'' = Some level"
    and asked: "last_slot s \<noteq> Some ''URGENCY_OVERRIDE''"
  from engine_delta [of r s utterance] obtain answer s' where
    run: "run_logic_engine r s utterance = Inr (answer, s')"
    and delta: "map_of (clipboard s') = map_of (clipboard s) ++ map_of (turn_extraction r s utterance)"
    and vals: "\<And>k v. map_of (turn_extraction r s utterance) k = Some v \<Longrightarrow>
        (k, v) \<in> permitted (last_slot s)"
    by blast
  show ?thesis
  proof (cases "map_of (turn_extraction r s utterance) ''URGENCY_OVERRIDE''")
    case None
    with level delta run show ?thesis
      by (simp add: dict_get_def map_add_def)
  next
    case (Some v)
    from vals [OF Some] asked have "v = ''HIGH'' \<or> v = ''CRITICAL''"
      by (auto simp: permitted_def)
    with Some delta run show ?thesis
      by (simp add: dict_get_def map_add_def)
  qed
qed

theorem urgency_never_cleared_witness:
  "dict_get (clipboard \<lparr>clipboard = [(''bleeding'', ''gush''), (''URGENCY_OVERRIDE'', ''CRITICAL'')],
       subgroup = ''TRAUMA_BURN'', last_slot = Some ''depth'', category = ''DERMATOLOGICAL'',
       status = ''ACTIVE''\<rparr>) ''URGENCY_OVERRIDE'' = Some ''CRITICAL'' \<and>
   last_slot \<lparr>clipboard = [(''bleeding'', ''gush''), (''URGENCY_OVERRIDE'', ''CRITICAL'')],
       subgroup = ''TRAUMA_BURN'', last_slot = Some ''depth'', category = ''DERMATOLOGICAL'',
       status = ''ACTIVE''\<rparr> \<noteq> Some ''URGENCY_OVERRIDE'' \<and>
   (\<exists>answer s'.
      run_logic_engine 0 \<lparr>clipboard = [(''bleeding'', ''gush''), (''URGENCY_OVERRIDE'', ''CRITICAL'')],
          subgroup = ''TRAUMA_BURN'', last_slot = Some ''depth'', category = ''DERMATOLOGICAL'',
          status = ''ACTIVE''\<rparr> ''there is a red streak'' = Inr (answer, s') \<and>
      dict_get (clipboard s') ''URGENCY_OVERRIDE'' = Some ''HIGH'')"
proof -
  let ?s = "\<lparr>clipboard = [(''bleeding'', ''gush''), (''URGENCY_OVERRIDE'', ''CRITICAL'')],
       subgroup = ''TRAUMA_BURN'', last_slot = Some ''depth'', category = ''DERMATOLOGICAL'',
       status = ''ACTIVE''\<rparr>"
  have h1: "dict_get (clipboard ?s) ''URGENCY_OVERRIDE'' = Some ''CRITICAL''"
    by (simp add: dict_get_def)
  have h2: "last_slot ?s \<noteq> Some ''URGENCY_OVERRIDE''"
    by simp
  have x: "dict_get (turn_extraction 0 ?s ''there is a red streak'') ''URGENCY_OVERRIDE'' = Some ''HIGH''"
    by code_simp
  from urgency_never_cleared [OF h1 h2, of 0 "''there is a red streak''"] x h1 h2
  show ?thesis by auto
qed


section \<open>Facts across a redirect\<close>







subsection \<open>The question bank as shipped\<close>

lemma gastro_bank_missing: "dict_get SPECIALIST_QUESTIONS ''GASTROINTESTINAL'' = None"
  by (simp add: dict_get_def SPECIALIST_QUESTIONS_def dict_set_def)

lemma pick_gastro:
  "pick_question SPECIALIST_QUESTIONS ''GASTROINTESTINAL'' sub_group cb r = (None, None)"
  using gastro_bank_missing by (simp add: pick_question_def dict_get_or_def dict_get_def)

lemma gnq_gastro_value:
  "get_next_question ''GASTROINTESTINAL'' sub_group user_text cb last_asked_slot r =
     ((None, None), extract_all ''GASTROINTESTINAL'' user_text last_asked_slot cb)"
  by (simp add: get_next_question_def Let_def pick_gastro)

lemma gnq_gastro_eq:
  "get_next_question ''GASTROINTESTINAL'' sub_group user_text cb last_asked_slot r = (a, c)
     \<Longrightarrow> a = (None, None)"
  by (simp add: gnq_gastro_value)

lemma engine_gastro:
  assumes "run_logic_engine r s text = Inr (answer, s')" and "category s' = ''GASTROINTESTINAL''"
  shows "answer = (None, None)"
  using assms
  unfolding run_logic_engine_def Let_def
  by (auto split: if_splits option.splits prod.splits dest: gnq_gastro_eq)

lemma engine_gastro_completes:
  assumes "category s = ''GASTROINTESTINAL''"
  shows "\<exists>s'. run_logic_engine r s text = Inr ((None, None), s') \<and> category s' = ''GASTROINTESTINAL''"
  using assms
  by (simp add: run_logic_engine_def Let_def gnq_gastro_value)

lemma predict_gastro_first_turn:
  assumes "\<not> select_fails faults" and "\<not> insert_fails faults"
    and "find_open_case (consultations srv) uid = None"
    and "active_sessions srv uid = None"
    and "predict_category text = ''GASTROINTESTINAL''"
  shows "fst (predict_disease faults r srv uid text) =
           Inr \<lparr>message = Diagnosis_Complete ''Gastroenterologist'', locked = True\<rparr>"
proof -
  have "category (new_session text) = ''GASTROINTESTINAL''"
    using assms(5) by (simp add: new_session_def)
  from engine_gastro_completes [OF this, of r "text"]
  obtain s' where run: "run_logic_engine r (new_session text) text = Inr ((None, None), s')"
    and cat: "category s' = ''GASTROINTESTINAL''"
    by blast
  show ?thesis
    using assms(1-4) run cat
    by (simp add: predict_disease_def Let_def dict_get_or_def specialist_map_def)
qed

text \<open>
  C10. The question bank that the module ends up with has no entry for GASTROINTESTINAL:
  the dictionary literal that defined it is replaced by the later assignment. Hence for
  that category the question selection returns no question, whatever the sub-group, the
  utterance and the clipboard; a turn of the logic engine that ends in that category
  (from the start or after a redirect) selects no question; and the first turn of a new
  session classified as GASTROINTESTINAL is answered with the completion message, with
  no follow-up question asked.
\<close>

theorem gastro_never_asks:
  "dict_get SPECIALIST_QUESTIONS ''GASTROINTESTINAL'' = None \<and>
   fst (get_next_question ''GASTROINTESTINAL'' sub_group user_text cb last_asked_slot r) = (None, None) \<and>
   (run_logic_engine r s text = Inr (answer, s') \<and> category s' = ''GASTROINTESTINAL''
      \<longrightarrow> answer = (None, None)) \<and>
   (\<not> select_fails faults \<and> \<not> insert_fails faults \<and>
    find_open_case (consultations srv) uid = None \<and> active_sessions srv uid = None \<and>
    predict_category text = ''GASTROINTESTINAL''
      \<longrightarrow> fst (predict_disease faults r srv uid text) =
            Inr \<lparr>message = Diagnosis_Complete ''Gastroenterologist'', locked = True\<rparr>)"
  using gastro_bank_missing engine_gastro predict_gastro_first_turn
  by (simp add: gnq_gastro_value) blast

theorem gastro_never_asks_witness:
  "predict_category ''my stomach hurts'' = ''GASTROINTESTINAL'' \<and>
   find_open_case (consultations empty_server) 7 = None \<and>
   active_sessions empty_server 7 = None \<and>
   fst (predict_disease no_faults 0 empty_server 7 ''my stomach hurts'') =
     Inr \<lparr>message = Diagnosis_Complete ''Gastroenterologist'', locked = True\<rparr> \<and>
   (\<exists>s'. run_logic_engine 0 (new_session ''my stomach hurts'') ''my stomach hurts'' = Inr ((None, None), s')
      \<and> category s' = ''GASTROINTESTINAL'')"
proof -
  have c: "predict_category ''my stomach hurts'' = ''GASTROINTESTINAL''"
    by code_simp
  have f: "find_open_case (consultations empty_server) 7 = None"
    by (simp add: empty_server_def find_open_case_def)
  have a: "active_sessions empty_server 7 = None"
    by (simp add: empty_server_def)
  have n: "\<not> select_fails no_faults" "\<not> insert_fails no_faults"
    by (simp_all add: no_faults_def)
  have "category (new_session ''my stomach hurts'') = ''GASTROINTESTINAL''"
    using c by (simp add: new_session_def)
  from engine_gastro_completes [OF this, of 0 "''my stomach hurts''"]
  obtain s' where run: "run_logic_engine 0 (new_session ''my stomach hurts'') ''my stomach hurts'' = Inr ((None, None), s')"
    and cat: "category s' = ''GASTROINTESTINAL''"
    by blast
  have "fst (predict_disease no_faults 0 empty_server 7 ''my stomach hurts'') =
     Inr \<lparr>message = Diagnosis_Complete ''Gastroenterologist'', locked = True\<rparr>"
    using gastro_never_asks [of "''DEFAULT''" "[]" "[]" None 0 "new_session ''my stomach hurts''"
        "''my stomach hurts''" "(None, None)" s' no_faults empty_server 7] c f a n
    by blast
  with c f a run cat show ?thesis by blast
qed


section \<open>The scenarios of the specification\<close>

text \<open>
  C1, as the specification states it, fails on the utterance itself: the call that
  handles it selects no question (it signals completion), and the duration it stores is
  not \<^verbatim>\<open>"2 days"\<close>.
\<close>

theorem stomach_scenario_counterexample:
  "fst (fst (get_next_question ''GASTROINTESTINAL'' ''STOMACH''
               ''I have severe stomach pain and vomiting for 2 days'' [] None 0)) = None \<and>
   dict_get (snd (get_next_question ''GASTROINTESTINAL'' ''STOMACH''
               ''I have severe stomach pain and vomiting for 2 days'' [] None 0)) ''duration''
     \<noteq> Some ''2 days''"
  by code_simp

text \<open>
  C1, amended. For the utterance "I have severe stomach pain and vomiting for 2 days" in
  a fresh session, the category is GASTROINTESTINAL and the router returns STOMACH. After
  the turn the clipboard holds a duration, a severity and a vomiting value and nothing
  else, each the span its pattern matched: "2 day", "severe" and "vomit". No question
  is selected: the turn signals completion. The slots of STOMACH in the dictionary
  literal written for GASTROINTESTINAL are duration, vomiting and severity, all filled
  by this utterance, so that literal leaves no unfilled STOMACH slot either.
\<close>

theorem stomach_scenario:
  "predict_category ''I have severe stomach pain and vomiting for 2 days'' = ''GASTROINTESTINAL'' \<and>
   get_best_subgroup ''I have severe stomach pain and vomiting for 2 days'' ''GASTROINTESTINAL''
     = ''STOMACH'' \<and>
   run_logic_engine r (new_session ''I have severe stomach pain and vomiting for 2 days'')
       ''I have severe stomach pain and vomiting for 2 days'' =
     Inr ((None, None),
          \<lparr>clipboard = [(''duration'', ''2 day''), (''severity'', ''severe''), (''vomiting'', ''vomit'')],
           subgroup = ''STOMACH'', last_slot = None, category = ''GASTROINTESTINAL'',
           status = ''ACTIVE''\<rparr>) \<and>
   pick_question SPECIALIST_QUESTIONS_gastro_literal ''GASTROINTESTINAL'' ''STOMACH''
       [(''duration'', ''2 day''), (''severity'', ''severe''), (''vomiting'', ''vomit'')] r
     = (None, None)"
  by code_simp


text \<open>
  C5. In "coughing up clear mucus but no blood" the only mention of blood, red or pink
  is the word blood at position 31, and the negation detector answers true there. The
  sputum rule nevertheless sets \<^verbatim>\<open>URGENCY_OVERRIDE\<close> to CRITICAL: it asks the negation
  detector about the position of its own first match, the word clear.
\<close>

theorem hemoptysis_negated_blood:
  "re_search hemoptysis_words (lower ''coughing up clear mucus but no blood'') = Some (31, ''blood'') \<and>
   check_negation (lower ''coughing up clear mucus but no blood'') 31 \<and>
   re_search hemoptysis_words (take 31 (lower ''coughing up clear mucus but no blood'')) = None \<and>
   predict_category ''coughing up clear mucus but no blood'' = ''RESPIRATORY'' \<and>
   dict_get (snd (get_next_question ''RESPIRATORY'' ''COUGH''
                    ''coughing up clear mucus but no blood'' [] None 0)) ''URGENCY_OVERRIDE''
     = Some ''CRITICAL''"
  by code_simp


text \<open>
  C2. The first turn of a new session with the utterance "i feel sick and my gums
  bleed" completes with \<^verbatim>\<open>URGENCY_OVERRIDE\<close> = HIGH in the clipboard. The case created
  in the record store carries the generated summary, and the urgency score Normal: the
  escalation level of the session is not handed over. The session is removed and the
  answer is locked.
\<close>

theorem urgency_not_handed_over:
  "run_logic_engine 0 (new_session ''i feel sick and my gums bleed'') ''i feel sick and my gums bleed'' =
     Inr ((None, None),
          \<lparr>clipboard = [(''assessment'', ''sick''), (''bleeding_check'', ''gum''),
                        (''URGENCY_OVERRIDE'', ''HIGH'')],
           subgroup = ''DEFAULT'', last_slot = None, category = ''GENERAL_SYSTEMIC'',
           status = ''ACTIVE''\<rparr>) \<and>
   consultations (snd (predict_disease no_faults 0 empty_server 7 ''i feel sick and my gums bleed'')) =
     [\<lparr>case_id = 1, user_id = 7,
       ai_summary = ''Patient reports sick, gum for unknown duration with undetermined severity.'',
       predicted_category = ''GENERAL_SYSTEMIC'', urgency_score = ''Normal'',
       doctor_assigned = ''General Physician'', case_status = ''PENDING''\<rparr>] \<and>
   active_sessions (snd (predict_disease no_faults 0 empty_server 7 ''i feel sick and my gums bleed'')) 7
     = None \<and>
   fst (predict_disease no_faults 0 empty_server 7 ''i feel sick and my gums bleed'') =
     Inr \<lparr>message = Diagnosis_Complete ''General Physician'', locked = True\<rparr>"
  by code_simp


end
